theory Spec2Isabelle
  imports Complex_Main
begin

section \<open>Values shared by the parsing engine\<close>

text \<open>
  Bytes are \<^typ>\<open>char\<close>, a Go \<open>string\<close> or \<open>[]byte\<close> is a \<^typ>\<open>string\<close>.
  The characters that cannot be written inside a string literal get names.
\<close>

definition LF :: char where "LF = CHR 0x0A"
definition CR :: char where "CR = CHR 0x0D"
definition TAB :: char where "TAB = CHR 0x09"
definition FF :: char where "FF = CHR 0x0C"
definition DQUOTE :: char where "DQUOTE = CHR 0x22"
definition SQUOTE :: char where "SQUOTE = CHR 0x27"

text \<open>
  Errors. \<open>fmt.Errorf\<close> with string arguments gives an error known by its text
  (\<open>Errorf\<close>). The errors of \<open>strconv\<close> and \<open>encoding/csv\<close> are the structs of those
  packages (\<open>NumError{Func, Num, Err}\<close>; \<open>ParseError\<close> without its line and column).
  \<open>ErrorfCmd e out\<close> is the value of \<open>fmt.Errorf("%s: %s", e, out)\<close>: the error whose
  text is the text of \<open>e\<close>, a colon, a space and \<open>out\<close>.
\<close>

datatype strconv_err = ErrSyntax | ErrRange

datatype csv_err = ErrBareQuote | ErrQuote | ErrFieldCount

datatype error =
    Errorf string
  | NumError string string strconv_err
  | ParseError csv_err
  | ErrorfCmd error string

text \<open>
  A \<open>float64\<close> as far as the parsing engine tells values apart: not-a-number, the two
  infinities (\<open>Inf True\<close> is the negative one), and \<open>Finite q\<close> for the float64 nearest
  to the rational \<open>q\<close>. Binary rounding is not modelled.
\<close>

datatype float64 = NaN | Inf bool | Finite rat

text \<open>A Go function either returns or panics; the only panic here is an index out of range.\<close>

datatype panic = IndexOutOfRange nat nat

datatype 'a outcome = Panic panic | Returned 'a

text \<open>\<open>Result\<close> and \<open>SensorData\<close> of package \<open>freeipmi\<close>.\<close>

record Result =
  "output" :: string
  err :: "error option"

record SensorData =
  ID :: int
  Name :: string
  Type :: string
  State :: string
  Value :: float64
  Unit :: string
  Event :: string

section \<open>Library functions the parsing engine calls\<close>

subsection \<open>\<open>strings\<close>\<close>

text \<open>\<open>strings.Split(s, "\n")\<close>: always at least one piece.\<close>

fun Split_nl :: "string \<Rightarrow> string list" where
  "Split_nl [] = [[]]"
| "Split_nl (c # cs) =
     (if c = LF then [] # Split_nl cs
      else (case Split_nl cs of [] \<Rightarrow> [[c]] | l # ls \<Rightarrow> (c # l) # ls))"

text \<open>\<open>strings.Trim(s, cutset)\<close> for a cutset of single-byte characters.\<close>

definition Trim :: "string \<Rightarrow> string \<Rightarrow> string" where
  "Trim s cutset =
     rev (dropWhile (\<lambda>c. c \<in> set cutset) (rev (dropWhile (\<lambda>c. c \<in> set cutset) s)))"

fun HasPrefix :: "string \<Rightarrow> string \<Rightarrow> bool" where
  "HasPrefix s [] = True"
| "HasPrefix [] (p # ps) = False"
| "HasPrefix (c # cs) (p # ps) = (c = p \<and> HasPrefix cs ps)"

text \<open>\<open>strings.Contains(s, substr)\<close>.\<close>

fun Contains :: "string \<Rightarrow> string \<Rightarrow> bool" where
  "Contains [] sub = (sub = [])"
| "Contains (c # cs) sub = (HasPrefix (c # cs) sub \<or> Contains cs sub)"

subsection \<open>\<open>strconv.ParseInt(s, 10, 64)\<close>\<close>

definition isDigit :: "char \<Rightarrow> bool" where
  "isDigit c = (c \<in> set ''0123456789'')"

definition digitVal :: "char \<Rightarrow> nat" where
  "digitVal c = of_char c - 48"

text \<open>
  \<open>ParseUint\<close> in base 10: the first byte that is not a digit is a syntax error, the
  first digit that takes the value past \<open>2^64 - 1\<close> is a range error, whichever comes
  first.
\<close>

fun uintLoop :: "nat \<Rightarrow> string \<Rightarrow> strconv_err + nat" where
  "uintLoop n [] = Inr n"
| "uintLoop n (c # cs) =
     (if \<not> isDigit c then Inl ErrSyntax
      else if n * 10 + digitVal c \<ge> 2 ^ 64 then Inl ErrRange
      else uintLoop (n * 10 + digitVal c) cs)"

definition ParseUint :: "string \<Rightarrow> strconv_err + nat" where
  "ParseUint s = (if s = [] then Inl ErrSyntax else uintLoop 0 s)"

definition ParseInt :: "string \<Rightarrow> error + int" where
  "ParseInt s0 =
     (if s0 = [] then Inl (NumError ''ParseInt'' s0 ErrSyntax)
      else
        let neg = (hd s0 = CHR ''-'');
            s = (if hd s0 = CHR ''+'' \<or> hd s0 = CHR ''-'' then tl s0 else s0)
        in case ParseUint s of
             Inl k \<Rightarrow> Inl (NumError ''ParseInt'' s0 k)
           | Inr un \<Rightarrow>
               if \<not> neg \<and> un \<ge> 2 ^ 63 then Inl (NumError ''ParseInt'' s0 ErrRange)
               else if neg \<and> un > 2 ^ 63 then Inl (NumError ''ParseInt'' s0 ErrRange)
               else Inr (if neg then - int un else int un))"

subsection \<open>\<open>strconv.ParseFloat(s, 64)\<close>\<close>

text \<open>
  Modelled on the documented behaviour of \<open>strconv.ParseFloat\<close>: the special values
  (\<open>special\<close>), then decimal and hexadecimal floating-point syntax with underscores
  between digits (\<open>readFloat\<close>, \<open>underscoreOK\<close>). The whole string must be consumed.
\<close>

definition toLowerASCII :: "char \<Rightarrow> char" where
  "toLowerASCII c =
     (case map_of (zip ''ABCDEFGHIJKLMNOPQRSTUVWXYZ'' ''abcdefghijklmnopqrstuvwxyz'') c of
        Some l \<Rightarrow> l
      | None \<Rightarrow> c)"

definition isSign :: "char \<Rightarrow> bool" where
  "isSign c = (c = CHR ''+'' \<or> c = CHR ''-'')"

definition special :: "string \<Rightarrow> float64 option" where
  "special s =
     (if s = [] then None
      else if isSign (hd s) then
        (if map toLowerASCII (tl s) \<in> {''inf'', ''infinity''} then Some (Inf (hd s = CHR ''-''))
         else None)
      else if map toLowerASCII s \<in> {''inf'', ''infinity''} then Some (Inf False)
      else if map toLowerASCII s = ''nan'' then Some NaN
      else None)"

definition isHexLetter :: "char \<Rightarrow> bool" where
  "isHexLetter c = (c \<in> set ''abcdefABCDEF'')"

definition hexVal :: "char \<Rightarrow> nat" where
  "hexVal c = (if isDigit c then digitVal c else of_char (toLowerASCII c) - 87)"

text \<open>
  The mantissa loop of \<open>readFloat\<close>. State: a point was seen, a digit was seen, the
  digits read so far as a number, how many of them follow the point, an underscore was
  seen. It stops at the first byte that belongs to no mantissa and returns the rest.
\<close>

fun mantLoop :: "bool \<Rightarrow> bool \<Rightarrow> bool \<Rightarrow> nat \<Rightarrow> nat \<Rightarrow> bool \<Rightarrow> string
    \<Rightarrow> bool \<times> nat \<times> nat \<times> bool \<times> string" where
  "mantLoop hex sawdot sawdigits m fd us [] = (sawdigits, m, fd, us, [])"
| "mantLoop hex sawdot sawdigits m fd us (c # cs) =
     (if c = CHR ''_'' then mantLoop hex sawdot sawdigits m fd True cs
      else if c = CHR ''.'' then
        (if sawdot then (sawdigits, m, fd, us, c # cs)
         else mantLoop hex True sawdigits m fd us cs)
      else if isDigit c then
        mantLoop hex sawdot True (m * (if hex then 16 else 10) + digitVal c)
          (if sawdot then Suc fd else fd) us cs
      else if hex \<and> isHexLetter c then
        mantLoop hex sawdot True (m * 16 + hexVal c) (if sawdot then Suc fd else fd) us cs
      else (sawdigits, m, fd, us, c # cs))"

text \<open>The exponent digits: the value stops growing once it has reached 10000.\<close>

fun expLoop :: "nat \<Rightarrow> bool \<Rightarrow> string \<Rightarrow> nat \<times> bool \<times> string" where
  "expLoop e us [] = (e, us, [])"
| "expLoop e us (c # cs) =
     (if c = CHR ''_'' then expLoop e True cs
      else if isDigit c then expLoop (if e < 10000 then e * 10 + digitVal c else e) us cs
      else (e, us, c # cs))"

datatype saw = SawStart | SawDigit | SawUnderscore | SawOther

fun underscoreLoop :: "bool \<Rightarrow> saw \<Rightarrow> string \<Rightarrow> bool" where
  "underscoreLoop hex sw [] = (sw \<noteq> SawUnderscore)"
| "underscoreLoop hex sw (c # cs) =
     (if isDigit c \<or> (hex \<and> isHexLetter c) then underscoreLoop hex SawDigit cs
      else if c = CHR ''_'' then
        (if sw \<noteq> SawDigit then False else underscoreLoop hex SawUnderscore cs)
      else if sw = SawUnderscore then False
      else underscoreLoop hex SawOther cs)"

definition underscoreOK :: "string \<Rightarrow> bool" where
  "underscoreOK s0 =
     (let s = (if s0 \<noteq> [] \<and> isSign (hd s0) then tl s0 else s0)
      in if length s \<ge> 2 \<and> hd s = CHR ''0'' \<and> hd (tl s) \<in> set ''bBoOxX''
         then underscoreLoop (hd (tl s) \<in> set ''xX'') SawDigit (tl (tl s))
         else underscoreLoop False SawStart s)"

definition ipow :: "rat \<Rightarrow> int \<Rightarrow> rat" where
  "ipow b k = (if k \<ge> 0 then b ^ nat k else 1 / b ^ nat (- k))"

text \<open>
  \<open>readFloat\<close> followed by the check that nothing is left: the number the text denotes,
  or \<open>None\<close> where Go reports a syntax error.
\<close>

definition readFloat :: "string \<Rightarrow> rat option" where
  "readFloat s0 =
     (if s0 = [] then None
      else
        let neg = (hd s0 = CHR ''-'');
            s = (if isSign (hd s0) then tl s0 else s0);
            hex = (length s > 2 \<and> hd s = CHR ''0'' \<and> hd (tl s) \<in> set ''xX'');
            s1 = (if hex then tl (tl s) else s)
        in case mantLoop hex False False 0 0 False s1 of
             (sawdigits, m, fd, us, rest) \<Rightarrow>
               if \<not> sawdigits then None
               else if rest \<noteq> [] \<and> hd rest \<in> set (if hex then ''pP'' else ''eE'') then
                 (let r1 = tl rest in
                  if r1 = [] then None
                  else
                    let eneg = (hd r1 = CHR ''-'');
                        r2 = (if isSign (hd r1) then tl r1 else r1)
                    in if r2 = [] then None
                       else if \<not> isDigit (hd r2) then None
                       else case expLoop 0 us r2 of
                              (e, us', rest') \<Rightarrow>
                                if rest' \<noteq> [] then None
                                else if us' \<and> \<not> underscoreOK s0 then None
                                else
                                  let ex = (if eneg then - int e else int e);
                                      q = (if hex then of_nat m * ipow 2 (ex - 4 * int fd)
                                           else of_nat m * ipow 10 (ex - int fd))
                                  in Some (if neg then - q else q))
               else if hex then None
               else if rest \<noteq> [] then None
               else if us \<and> \<not> underscoreOK s0 then None
               else
                 let q = of_nat m * ipow 10 (- int fd)
                 in Some (if neg then - q else q))"

definition ParseFloat :: "string \<Rightarrow> error + float64" where
  "ParseFloat s =
     (case special s of
        Some v \<Rightarrow> Inr v
      | None \<Rightarrow>
          (case readFloat s of
             None \<Rightarrow> Inl (NumError ''ParseFloat'' s ErrSyntax)
           | Some q \<Rightarrow>
               if \<bar>q\<bar> \<ge> 2 ^ 1024 - 2 ^ 970 then Inl (NumError ''ParseFloat'' s ErrRange)
               else Inr (Finite q)))"

subsection \<open>\<open>encoding/csv\<close>: \<open>NewReader(r).ReadAll()\<close> with the default settings\<close>

text \<open>
  \<open>readLine\<close> turns \<open>\r\n\<close> into \<open>\n\<close> on every line and drops a \<open>\r\<close> that ends the
  input.
\<close>

fun normalizeNL :: "string \<Rightarrow> string" where
  "normalizeNL [] = []"
| "normalizeNL [c] = (if c = CR then [] else [c])"
| "normalizeNL (c # d # cs) =
     (if c = CR \<and> d = LF then LF # normalizeNL cs else c # normalizeNL (d # cs))"

text \<open>
  The reader as a scanner over the normalised input. \<open>RecordStart\<close> skips empty lines;
  a field starts quoted or not; inside a quoted field a line feed is data and a quote is
  followed by a second quote, a comma or the end of the line. The first record fixes the
  number of fields of all the others (\<open>FieldsPerRecord = 0\<close>).
\<close>

datatype csv_state = RecordStart | FieldStart | InField | InQuoted | QuoteSeen

definition countOK :: "nat option \<Rightarrow> string list \<Rightarrow> bool" where
  "countOK n r = (case n of None \<Rightarrow> True | Some k \<Rightarrow> length r = k)"

definition consRecord :: "string list \<Rightarrow> csv_err + string list list \<Rightarrow> csv_err + string list list" where
  "consRecord r rest = (case rest of Inl e \<Rightarrow> Inl e | Inr rs \<Rightarrow> Inr (r # rs))"

fun readRecords :: "nat option \<Rightarrow> csv_state \<Rightarrow> string \<Rightarrow> string list \<Rightarrow> string
    \<Rightarrow> csv_err + string list list" where
  "readRecords n RecordStart f r [] = Inr []"
| "readRecords n RecordStart f r (c # cs) =
     (if c = LF then readRecords n RecordStart [] [] cs
      else if c = DQUOTE then readRecords n InQuoted [] [] cs
      else if c = CHR '','' then readRecords n FieldStart [] [[]] cs
      else readRecords n InField [c] [] cs)"
| "readRecords n FieldStart f r [] =
     (if countOK n (r @ [[]]) then Inr [r @ [[]]] else Inl ErrFieldCount)"
| "readRecords n FieldStart f r (c # cs) =
     (if c = DQUOTE then readRecords n InQuoted [] r cs
      else if c = CHR '','' then readRecords n FieldStart [] (r @ [[]]) cs
      else if c = LF then
        (if countOK n (r @ [[]])
         then consRecord (r @ [[]]) (readRecords (Some (length r + 1)) RecordStart [] [] cs)
         else Inl ErrFieldCount)
      else readRecords n InField [c] r cs)"
| "readRecords n InField f r [] =
     (if countOK n (r @ [f]) then Inr [r @ [f]] else Inl ErrFieldCount)"
| "readRecords n InField f r (c # cs) =
     (if c = CHR '','' then readRecords n FieldStart [] (r @ [f]) cs
      else if c = LF then
        (if countOK n (r @ [f])
         then consRecord (r @ [f]) (readRecords (Some (length r + 1)) RecordStart [] [] cs)
         else Inl ErrFieldCount)
      else if c = DQUOTE then Inl ErrBareQuote
      else readRecords n InField (f @ [c]) r cs)"
| "readRecords n InQuoted f r [] = Inl ErrQuote"
| "readRecords n InQuoted f r (c # cs) =
     (if c = DQUOTE then readRecords n QuoteSeen f r cs
      else readRecords n InQuoted (f @ [c]) r cs)"
| "readRecords n QuoteSeen f r [] =
     (if countOK n (r @ [f]) then Inr [r @ [f]] else Inl ErrFieldCount)"
| "readRecords n QuoteSeen f r (c # cs) =
     (if c = DQUOTE then readRecords n InQuoted (f @ [DQUOTE]) r cs
      else if c = CHR '','' then readRecords n FieldStart [] (r @ [f]) cs
      else if c = LF then
        (if countOK n (r @ [f])
         then consRecord (r @ [f]) (readRecords (Some (length r + 1)) RecordStart [] [] cs)
         else Inl ErrFieldCount)
      else Inl ErrQuote)"

definition ReadAll :: "string \<Rightarrow> error + string list list" where
  "ReadAll s =
     (case readRecords None RecordStart [] [] (normalizeNL s) of
        Inl e \<Rightarrow> Inl (ParseError e)
      | Inr rs \<Rightarrow> Inr rs)"

subsection \<open>\<open>regexp\<close>\<close>

text \<open>
  A compiled regular expression as \<open>getValue\<close> uses it: the names of its groups
  (\<open>SubexpNames\<close>, the first one empty, for the whole match) and \<open>FindStringSubmatch\<close>,
  which gives the texts of the groups of the leftmost match or \<open>None\<close> (Go's \<open>nil\<close>).
\<close>

record regexp =
  SubexpNames :: "string list"
  FindStringSubmatch :: "string \<Rightarrow> string list option"

text \<open>The class \<open>\s\<close> of Go's regular expressions and the class \<open>[0-9.]\<close>.\<close>

definition isSpace :: "char \<Rightarrow> bool" where
  "isSpace c = (c \<in> {TAB, LF, FF, CR, CHR '' ''})"

definition isNumDot :: "char \<Rightarrow> bool" where
  "isNumDot c = (if isDigit c then True else c = CHR ''.'')"

definition isLF :: "char \<Rightarrow> bool" where
  "isLF c = (c = LF)"

definition stripPrefix :: "string \<Rightarrow> string \<Rightarrow> string option" where
  "stripPrefix p s = (if HasPrefix s p then Some (drop (length p) s) else None)"

text \<open>
  \<open>dotStar s\<close> is what \<open>.*\<close> takes at the front of \<open>s\<close>: everything before a line feed.
  \<open>matched s rest\<close> is the text of a match that ends with \<open>.*\<close> applied to \<open>rest\<close>, the
  end of \<open>s\<close>.
\<close>

fun dotStar :: "string \<Rightarrow> string" where
  "dotStar [] = []"
| "dotStar (c # cs) = (if isLF c then [] else c # dotStar cs)"

definition matched :: "string \<Rightarrow> string \<Rightarrow> string" where
  "matched s rest = take (length s - length rest) s @ dotStar rest"

text \<open>
  The four patterns below are matched by hand. In each of them two neighbouring
  repetitions never accept the same byte, or the first of them is greedy and comes
  first (\<open>\s*\<close> before \<open>.*\<close>), so the leftmost match takes the longest run of every
  repetition in turn, and \<open>^\<close> ties it to the start of the text.

  \<^verbatim>\<open>^Current Power\s*:\s*(?P<value>[0-9.]*)\s*Watts.*\<close>
\<close>

definition ipmiDCMICurrentPowerRegex :: regexp where
  "ipmiDCMICurrentPowerRegex = \<lparr>
     SubexpNames = [[], ''value''],
     FindStringSubmatch = (\<lambda>s.
       case stripPrefix ''Current Power'' s of
         None \<Rightarrow> None
       | Some r1 \<Rightarrow>
           (case stripPrefix '':'' (dropWhile isSpace r1) of
              None \<Rightarrow> None
            | Some r2 \<Rightarrow>
                (let r3 = dropWhile isSpace r2
                 in case stripPrefix ''Watts'' (dropWhile isSpace (dropWhile isNumDot r3)) of
                      None \<Rightarrow> None
                    | Some r4 \<Rightarrow> Some [matched s r4, takeWhile isNumDot r3])))\<rparr>"

text \<open>\<^verbatim>\<open>^System Power\s*:\s(?P<value>.*)\<close>\<close>

definition ipmiChassisPowerRegex :: regexp where
  "ipmiChassisPowerRegex = \<lparr>
     SubexpNames = [[], ''value''],
     FindStringSubmatch = (\<lambda>s.
       case stripPrefix ''System Power'' s of
         None \<Rightarrow> None
       | Some r1 \<Rightarrow>
           (case stripPrefix '':'' (dropWhile isSpace r1) of
              None \<Rightarrow> None
            | Some r2 \<Rightarrow>
                (case r2 of
                   [] \<Rightarrow> None
                 | c # r3 \<Rightarrow>
                     if isSpace c then Some [matched s r3, dotStar r3] else None)))\<rparr>"

text \<open>\<^verbatim>\<open>^Firmware Revision\s*:\s*(?P<value>[0-9.]*).*\<close>\<close>

definition bmcInfoFirmwareRevisionRegex :: regexp where
  "bmcInfoFirmwareRevisionRegex = \<lparr>
     SubexpNames = [[], ''value''],
     FindStringSubmatch = (\<lambda>s.
       case stripPrefix ''Firmware Revision'' s of
         None \<Rightarrow> None
       | Some r1 \<Rightarrow>
           (case stripPrefix '':'' (dropWhile isSpace r1) of
              None \<Rightarrow> None
            | Some r2 \<Rightarrow>
                (let r3 = dropWhile isSpace r2
                 in Some [matched s (dropWhile isNumDot r3), takeWhile isNumDot r3])))\<rparr>"

text \<open>\<^verbatim>\<open>^Manufacturer ID\s*:\s*(?P<value>.*)\<close>\<close>

definition bmcInfoManufacturerIDRegex :: regexp where
  "bmcInfoManufacturerIDRegex = \<lparr>
     SubexpNames = [[], ''value''],
     FindStringSubmatch = (\<lambda>s.
       case stripPrefix ''Manufacturer ID'' s of
         None \<Rightarrow> None
       | Some r1 \<Rightarrow>
           (case stripPrefix '':'' (dropWhile isSpace r1) of
              None \<Rightarrow> None
            | Some r2 \<Rightarrow>
                (let r3 = dropWhile isSpace r2
                 in Some [matched s r3, dotStar r3])))\<rparr>"

section \<open>The output parsing engine (package \<open>freeipmi\<close>)\<close>

fun contains :: "int list \<Rightarrow> int \<Rightarrow> bool" where
  "contains [] elm = False"
| "contains (a # s) elm = (if a = elm then True else contains s elm)"

text \<open>\<open>line[i]\<close>: Go panics when the index is out of range.\<close>

definition index :: "'a list \<Rightarrow> nat \<Rightarrow> 'a outcome" where
  "index xs i = (if i < length xs then Returned (xs ! i) else Panic (IndexOutOfRange i (length xs)))"

definition andThen :: "'a outcome \<Rightarrow> ('a \<Rightarrow> 'b outcome) \<Rightarrow> 'b outcome" where
  "andThen x f = (case x of Panic p \<Rightarrow> Panic p | Returned v \<Rightarrow> f v)"

text \<open>
  The body of the loop of \<open>GetSensorData\<close> on one row: the row is skipped (\<open>continue\<close>),
  makes the function return an error, or gives a record to append.
\<close>

datatype row = Skip | Fail error | Row SensorData

definition sensorRow :: "string list \<Rightarrow> int list \<Rightarrow> row outcome" where
  "sensorRow line excludeSensorIds =
     andThen (index line 0) (\<lambda>f0.
       case ParseInt f0 of
         Inl e \<Rightarrow> Returned (Fail e)
       | Inr i \<Rightarrow>
           if contains excludeSensorIds i then Returned Skip
           else
             andThen (index line 1) (\<lambda>f1.
             andThen (index line 2) (\<lambda>f2.
             andThen (index line 3) (\<lambda>f3.
             andThen (index line 4) (\<lambda>val.
               case (if val \<noteq> ''N/A'' then ParseFloat val else Inr NaN) of
                 Inl e \<Rightarrow> Returned (Fail e)
               | Inr v \<Rightarrow>
                   andThen (index line 5) (\<lambda>f5.
                   andThen (index line 6) (\<lambda>f6.
                     Returned (Row \<lparr>ID = i, Name = f1, Type = f2, State = f3, Value = v,
                                     Unit = f5, Event = Trim f6 [SQUOTE]\<rparr>))))))))"

fun sensorLoop :: "string list list \<Rightarrow> int list \<Rightarrow> SensorData list
    \<Rightarrow> (SensorData list \<times> error option) outcome" where
  "sensorLoop [] ex result = Returned (result, None)"
| "sensorLoop (line # records) ex result =
     (case sensorRow line ex of
        Panic p \<Rightarrow> Panic p
      | Returned Skip \<Rightarrow> sensorLoop records ex result
      | Returned (Fail e) \<Rightarrow> Returned (result, Some e)
      | Returned (Row d) \<Rightarrow> sensorLoop records ex (result @ [d]))"

definition GetSensorData :: "Result \<Rightarrow> int list \<Rightarrow> (SensorData list \<times> error option) outcome" where
  "GetSensorData ipmiOutput excludeSensorIds =
     (case err ipmiOutput of
        Some e \<Rightarrow> Returned ([], Some (ErrorfCmd e (output ipmiOutput)))
      | None \<Rightarrow>
          (case ReadAll (output ipmiOutput) of
             Inl e \<Rightarrow> Returned ([], Some e)
           | Inr records \<Rightarrow> sensorLoop records excludeSensorIds []))"

subsection \<open>Single-value extraction\<close>

text \<open>
  The inner loop of \<open>getValue\<close> over the group names, from index \<open>i\<close>: the text of the
  first group named \<open>value\<close>, or \<open>None\<close> when the loop ends without returning.
\<close>

fun subexpLoop :: "string list \<Rightarrow> nat \<Rightarrow> string list \<Rightarrow> string option outcome" where
  "subexpLoop [] i match = Returned None"
| "subexpLoop (name # names) i match =
     (if name = ''value'' then andThen (index match i) (\<lambda>v. Returned (Some v))
      else subexpLoop names (Suc i) match)"

fun lineLoop :: "regexp \<Rightarrow> string list \<Rightarrow> string option outcome" where
  "lineLoop regex [] = Returned None"
| "lineLoop regex (line # lines) =
     (case FindStringSubmatch regex line of
        None \<Rightarrow> lineLoop regex lines
      | Some match \<Rightarrow>
          (case subexpLoop (SubexpNames regex) 0 match of
             Panic p \<Rightarrow> Panic p
           | Returned (Some v) \<Rightarrow> Returned (Some v)
           | Returned None \<Rightarrow> lineLoop regex lines))"

text \<open>
  The functions below return a value and an error in Go; the value that comes with a
  non-nil error is left out of the model.
\<close>

definition getValue :: "string \<Rightarrow> regexp \<Rightarrow> (error + string) outcome" where
  "getValue ipmiOutput regex =
     (case lineLoop regex (Split_nl ipmiOutput) of
        Panic p \<Rightarrow> Panic p
      | Returned (Some v) \<Rightarrow> Returned (Inr v)
      | Returned None \<Rightarrow>
          Returned (Inl (Errorf (''could not find value in output: '' @ ipmiOutput))))"

definition GetCurrentPowerConsumption :: "Result \<Rightarrow> (error + float64) outcome" where
  "GetCurrentPowerConsumption ipmiOutput =
     (case err ipmiOutput of
        Some e \<Rightarrow> Returned (Inl (ErrorfCmd e (output ipmiOutput)))
      | None \<Rightarrow>
          andThen (getValue (output ipmiOutput) ipmiDCMICurrentPowerRegex) (\<lambda>r.
            case r of
              Inl e \<Rightarrow> Returned (Inl e)
            | Inr v \<Rightarrow> Returned (ParseFloat v)))"

definition GetChassisPowerState :: "Result \<Rightarrow> (error + float64) outcome" where
  "GetChassisPowerState ipmiOutput =
     (case err ipmiOutput of
        Some e \<Rightarrow> Returned (Inl (ErrorfCmd e (output ipmiOutput)))
      | None \<Rightarrow>
          andThen (getValue (output ipmiOutput) ipmiChassisPowerRegex) (\<lambda>r.
            case r of
              Inl e \<Rightarrow> Returned (Inl e)
            | Inr v \<Rightarrow> if v = ''on'' then Returned (Inr (Finite 1)) else Returned (Inr (Finite 0))))"

definition GetBMCInfoFirmwareRevision :: "Result \<Rightarrow> (error + string) outcome" where
  "GetBMCInfoFirmwareRevision ipmiOutput =
     andThen (getValue (output ipmiOutput) bmcInfoFirmwareRevisionRegex) (\<lambda>r.
       case r of
         Inl e \<Rightarrow>
           (case err ipmiOutput of
              Some e0 \<Rightarrow> Returned (Inl (ErrorfCmd e0 (output ipmiOutput)))
            | None \<Rightarrow> Returned (Inl e))
       | Inr v \<Rightarrow> Returned (Inr v))"

definition GetBMCInfoManufacturerID :: "Result \<Rightarrow> (error + string) outcome" where
  "GetBMCInfoManufacturerID ipmiOutput =
     andThen (getValue (output ipmiOutput) bmcInfoManufacturerIDRegex) (\<lambda>r.
       case r of
         Inl e \<Rightarrow>
           (case err ipmiOutput of
              Some e0 \<Rightarrow> Returned (Inl (ErrorfCmd e0 (output ipmiOutput)))
            | None \<Rightarrow> Returned (Inl e))
       | Inr v \<Rightarrow> Returned (Inr v))"

section \<open>The scrape orchestrator (package \<open>main\<close>)\<close>

subsection \<open>The world outside the program\<close>

text \<open>
  A \<open>time.Time\<close> by its calendar date in local time and the time of day (nanoseconds
  since midnight). \<open>Date\<close> is \<open>time.Date(y, m, d, 0, 0, 0, 0, time.Local)\<close> on the
  fields of a valid date.
\<close>

record time =
  Year :: int
  Month :: int
  Day :: int
  clock :: nat

definition Date :: "int \<Rightarrow> int \<Rightarrow> int \<Rightarrow> time" where
  "Date y m d = \<lparr>Year = y, Month = m, Day = d, clock = 0\<rparr>"

text \<open>
  One call of \<open>freeipmi.Execute(cmd, args, config, target, logger)\<close> is recorded with
  its arguments. What the command prints and how it exits is up to the world
  (\<open>respond\<close>, which may depend on the calls made before). The pipe that carries the
  configuration is not modelled, and nothing is logged.
\<close>

record invocation =
  cmd :: string
  args :: "string list"
  config :: string
  target :: string

record env =
  respond :: "invocation list \<Rightarrow> invocation \<Rightarrow> Result"
  Open :: "error option"
  Readdir :: "error + string list"
  Stat :: "string \<Rightarrow> error + time"
  Now :: time
  pathJoin :: "string \<Rightarrow> string \<Rightarrow> string"
  executablesPath :: string
  elapsed :: float64

definition Execute :: "env \<Rightarrow> string \<Rightarrow> string list \<Rightarrow> string \<Rightarrow> string \<Rightarrow> invocation list
    \<Rightarrow> Result \<times> invocation list" where
  "Execute e c a cfg host h =
     (let call = \<lparr>cmd = c, args = a, config = cfg, target = host\<rparr>
      in (respond e h call, h @ [call]))"

subsection \<open>The SDR cache\<close>

definition sdrCacheDirectoy :: string where
  "sdrCacheDirectoy = ''/root/.freeipmi/sdr-cache/''"

text \<open>
  The loop of \<open>flushSensorSDRCache\<close> over the names in the cache directory. It returns
  the record of the calls of \<open>Execute\<close>; their results are dropped, as in the source.
\<close>

fun flushLoop :: "env \<Rightarrow> time \<Rightarrow> string \<Rightarrow> string \<Rightarrow> string list \<Rightarrow> invocation list
    \<Rightarrow> invocation list" where
  "flushLoop e nextTick host cfg [] h = h"
| "flushLoop e nextTick host cfg (name # dirFiles) h =
     (if Contains name host then
        (case Stat e (sdrCacheDirectoy @ name) of
           Inl er \<Rightarrow> flushLoop e nextTick host cfg dirFiles h
         | Inr modTime \<Rightarrow>
             if Day nextTick - Day modTime > 0 \<or> Month nextTick \<noteq> Month modTime
             then flushLoop e nextTick host cfg dirFiles
                    (snd (Execute e ''ipmi-sensors'' [''--flush-cache''] cfg host h))
             else flushLoop e nextTick host cfg dirFiles h)
      else flushLoop e nextTick host cfg dirFiles h)"

definition flushSensorSDRCache :: "env \<Rightarrow> string \<Rightarrow> string \<Rightarrow> invocation list
    \<Rightarrow> error option \<times> invocation list" where
  "flushSensorSDRCache e host cfg h =
     (case Open e of
        Some er \<Rightarrow> (Some er, h)
      | None \<Rightarrow>
          (case Readdir e of
             Inl er \<Rightarrow> (Some er, h)
           | Inr dirFiles \<Rightarrow>
               (let now = Now e;
                    nextTick = Date (Year now) (Month now) (Day now)
                in (None, flushLoop e nextTick host cfg dirFiles h))))"

subsection \<open>Collectors\<close>

text \<open>
  A metric sent on the channel: the fully qualified name of its descriptor, its value
  and the values of its labels.
\<close>

record metric =
  desc :: string
  val :: float64
  labelValues :: "string list"

definition upDesc :: string where
  "upDesc = ''ipmi_up''"

definition durationDesc :: string where
  "durationDesc = ''ipmi_scrape_duration_seconds''"

definition chassisPowerStateDesc :: string where
  "chassisPowerStateDesc = ''ipmi_chassis_power_state''"

text \<open>
  The interface \<open>collector\<close>. \<open>Collect\<close> gets the result and the host of the target and
  gives the metrics it sends, in order, with its two return values; it may panic.
\<close>

record collector =
  Name :: string
  Cmd :: string
  Args :: "string list"
  Collect :: "Result \<Rightarrow> string \<Rightarrow> (metric list \<times> int \<times> error option) outcome"

definition ChassisCollector :: collector where
  "ChassisCollector = \<lparr>
     Name = ''chassis'',
     Cmd = ''ipmi-chassis'',
     Args = [''--get-chassis-status''],
     Collect = (\<lambda>result host.
       andThen (GetChassisPowerState result) (\<lambda>r.
         case r of
           Inl e \<Rightarrow> Returned ([], 0, Some e)
         | Inr currentChassisPowerState \<Rightarrow>
             Returned ([\<lparr>desc = chassisPowerStateDesc, val = currentChassisPowerState,
                         labelValues = []\<rparr>], 1, None)))\<rparr>"

text \<open>
  Modelled from the spec: the sensor collector, whose source file is not among the
  sources. It runs the sensor-listing command, tabular-parses the result with the
  excluded ids of the configuration, and then either logs the error of the parse,
  returns up = 0 and sends nothing, or sends the metrics of every row and returns
  up = 1. Its name, the arguments of the command and the metrics of one row, which the
  specification gives only by family, are parameters. It has no \<open>recover\<close>: a panic of
  \<open>GetSensorData\<close> is a panic of \<open>Collect\<close>.
\<close>

definition SensorCollector :: "string \<Rightarrow> string list \<Rightarrow> int list \<Rightarrow> (SensorData \<Rightarrow> metric list)
    \<Rightarrow> collector" where
  "SensorCollector name arguments excludeSensorIds rowMetrics = \<lparr>
     Name = name,
     Cmd = ''ipmi-sensors'',
     Args = arguments,
     Collect = (\<lambda>result host.
       andThen (GetSensorData result excludeSensorIds) (\<lambda>r.
         case snd r of
           Some e \<Rightarrow> Returned ([], 0, Some e)
         | None \<Rightarrow> Returned (concat (map rowMetrics (fst r)), 1, None)))\<rparr>"

definition markCollectorUp :: "string \<Rightarrow> int \<Rightarrow> metric" where
  "markCollectorUp name up = \<lparr>desc = upDesc, val = Finite (of_int up), labelValues = [name]\<rparr>"

subsection \<open>\<open>metaCollector.Collect\<close>\<close>

text \<open>
  The configuration of the target as \<open>ConfigForTarget\<close> resolved it: the enabled
  collectors in configuration order and the FreeIPMI configuration text.
\<close>

record ipmiConfig =
  GetCollectors :: "collector list"
  GetFreeipmiConfig :: string

text \<open>
  The loop over the collectors. The state is the channel (what was sent so far) and the
  record of the calls of \<open>Execute\<close>; a panic of a collector ends the loop.
\<close>

fun collectLoop :: "env \<Rightarrow> string \<Rightarrow> string \<Rightarrow> collector list \<Rightarrow> metric list \<Rightarrow> invocation list
    \<Rightarrow> metric list \<times> invocation list \<times> panic option" where
  "collectLoop e cfg host [] ch h = (ch, h, None)"
| "collectLoop e cfg host (c # cs) ch h =
     (let fqcmd = pathJoin e (executablesPath e) (Cmd c);
          ex = Execute e fqcmd (Args c) cfg host h
      in case Collect c (fst ex) host of
           Panic p \<Rightarrow> (ch, snd ex, Some p)
         | Returned (ms, up, er) \<Rightarrow>
             collectLoop e cfg host cs (ch @ ms @ [markCollectorUp (Name c) up]) (snd ex))"

text \<open>
  The whole scrape: the cache is flushed (its error is dropped), the collectors run, and
  the deferred function sends the duration at the end, also after a panic.
\<close>

definition metaCollector_Collect :: "env \<Rightarrow> ipmiConfig \<Rightarrow> string \<Rightarrow> metric list \<Rightarrow> invocation list
    \<Rightarrow> metric list \<times> invocation list \<times> panic option" where
  "metaCollector_Collect e cf host ch h =
     (let h1 = snd (flushSensorSDRCache e host (GetFreeipmiConfig cf) h);
          r = collectLoop e (GetFreeipmiConfig cf) host (GetCollectors cf) ch h1
      in (fst r @ [\<lparr>desc = durationDesc, val = elapsed e, labelValues = []\<rparr>], fst (snd r),
          snd (snd r)))"

section \<open>Notions the statements use\<close>

text \<open>
  The first line, in order, that the pattern matches, with what it captured; the index
  of the group named \<open>value\<close>; and what the \<open>regexp\<close> package promises of a pattern
  with such a group: every match has one text per group.
\<close>

fun firstMatch :: "regexp \<Rightarrow> string list \<Rightarrow> string list option" where
  "firstMatch regex [] = None"
| "firstMatch regex (line # lines) =
     (case FindStringSubmatch regex line of
        Some match \<Rightarrow> Some match
      | None \<Rightarrow> firstMatch regex lines)"

definition isValueName :: "string \<Rightarrow> bool" where
  "isValueName name = (name = ''value'')"

definition valueGroup :: "regexp \<Rightarrow> nat" where
  "valueGroup regex = length (takeWhile (\<lambda>name. \<not> isValueName name) (SubexpNames regex))"

definition labelled :: "regexp \<Rightarrow> bool" where
  "labelled regex =
     (''value'' \<in> set (SubexpNames regex) \<and>
      (\<forall>s match. FindStringSubmatch regex s = Some match \<longrightarrow>
         length match = length (SubexpNames regex)))"

text \<open>
  A row of the table read column by column, as the specification describes it: the id
  is column 0, the value column 4, which is either the literal \<open>N/A\<close> or a decimal.
\<close>

definition isOK :: "'e + 'a \<Rightarrow> bool" where
  "isOK x = (case x of Inl e \<Rightarrow> False | Inr v \<Rightarrow> True)"

definition rowID :: "string list \<Rightarrow> int" where
  "rowID line = (case ParseInt (line ! 0) of Inl e \<Rightarrow> 0 | Inr i \<Rightarrow> i)"

definition rowValue :: "string list \<Rightarrow> float64" where
  "rowValue line =
     (if line ! 4 = ''N/A'' then NaN
      else case ParseFloat (line ! 4) of Inl e \<Rightarrow> NaN | Inr v \<Rightarrow> v)"

definition rowRecord :: "string list \<Rightarrow> SensorData" where
  "rowRecord line =
     \<lparr>ID = rowID line, Name = line ! 1, Type = line ! 2, State = line ! 3,
      Value = rowValue line, Unit = line ! 5, Event = Trim (line ! 6) [SQUOTE]\<rparr>"

definition wellFormedRow :: "string list \<Rightarrow> bool" where
  "wellFormedRow line =
     (7 \<le> length line \<and> isOK (ParseInt (line ! 0)) \<and>
      (if line ! 4 = ''N/A'' then True else isOK (ParseFloat (line ! 4))))"

text \<open>
  A row that stops the parse: its id is no integer, or it is kept and its value is
  neither \<open>N/A\<close> nor a decimal.
\<close>

definition malformedRow :: "int list \<Rightarrow> string list \<Rightarrow> bool" where
  "malformedRow ex line =
     (case ParseInt (line ! 0) of
        Inl e \<Rightarrow> True
      | Inr i \<Rightarrow>
          if i \<in> set ex then False
          else if line ! 4 = ''N/A'' then False
          else (case ParseFloat (line ! 4) of Inl e \<Rightarrow> True | Inr v \<Rightarrow> False))"

text \<open>The error such a row makes the parse return.\<close>

definition rowError :: "string list \<Rightarrow> error" where
  "rowError line =
     (case ParseInt (line ! 0) of
        Inl e \<Rightarrow> e
      | Inr i \<Rightarrow> (case ParseFloat (line ! 4) of Inl e \<Rightarrow> e | Inr v \<Rightarrow> Errorf []))"

text \<open>The strings used as examples.\<close>

definition fanRow :: string where
  "fanRow = ''12,Fan1,Fan,Nominal,3200,RPM,'' @ [SQUOTE] @ ''OK'' @ [SQUOTE]"

definition tempRow :: string where
  "tempRow = ''13,Temp1,Temperature,Nominal,45.5,C,'' @ [SQUOTE] @ ''OK'' @ [SQUOTE]"

definition badValueRow :: string where
  "badValueRow = ''12,Fan1,Fan,Nominal,abc,RPM,'' @ [SQUOTE] @ ''OK'' @ [SQUOTE]"

definition nanRow :: string where
  "nanRow = ''12,Fan1,Fan,Nominal,NaN,RPM,'' @ [SQUOTE] @ ''OK'' @ [SQUOTE]"

definition naRow :: string where
  "naRow = ''12,Fan1,Fan,Nominal,N/A,RPM,'' @ [SQUOTE] @ ''OK'' @ [SQUOTE]"

definition fanFields :: "string list" where
  "fanFields = [''12'', ''Fan1'', ''Fan'', ''Nominal'', ''3200'', ''RPM'', [SQUOTE] @ ''OK'' @ [SQUOTE]]"

definition tempFields :: "string list" where
  "tempFields =
     [''13'', ''Temp1'', ''Temperature'', ''Nominal'', ''45.5'', ''C'', [SQUOTE] @ ''OK'' @ [SQUOTE]]"

definition badValueFields :: "string list" where
  "badValueFields =
     [''12'', ''Fan1'', ''Fan'', ''Nominal'', ''abc'', ''RPM'', [SQUOTE] @ ''OK'' @ [SQUOTE]]"

definition nanFields :: "string list" where
  "nanFields = [''12'', ''Fan1'', ''Fan'', ''Nominal'', ''NaN'', ''RPM'', [SQUOTE] @ ''OK'' @ [SQUOTE]]"

definition naFields :: "string list" where
  "naFields = [''12'', ''Fan1'', ''Fan'', ''Nominal'', ''N/A'', ''RPM'', [SQUOTE] @ ''OK'' @ [SQUOTE]]"

definition fanTempTable :: string where
  "fanTempTable = fanRow @ [LF] @ tempRow"

definition tempBadTable :: string where
  "tempBadTable = tempRow @ [LF] @ badValueRow"

definition fanRecord :: "float64 \<Rightarrow> SensorData" where
  "fanRecord v = \<lparr>ID = 12, Name = ''Fan1'', Type = ''Fan'', State = ''Nominal'',
                   Value = v, Unit = ''RPM'', Event = ''OK''\<rparr>"

definition dcmiOutput :: string where
  "dcmiOutput = ''Current Power        : 150.500 Watts (Active)''"

definition bmcOutput :: string where
  "bmcOutput = ''Firmware Revision : 1.23'' @ [LF] @ ''Manufacturer ID   : Dell Inc. (674)''"

definition timeoutOutput :: string where
  "timeoutOutput = ''ipmi_ctx_open_outofband: connection timeout''"

definition powerOnOutput :: string where
  "powerOnOutput = ''System Power         : on''"

definition exitError :: error where
  "exitError = Errorf ''error running bmc-info: exit status 1''"

definition tempRecord :: SensorData where
  "tempRecord = \<lparr>ID = 13, Name = ''Temp1'', Type = ''Temperature'', State = ''Nominal'',
                  Value = Finite (91 / 2), Unit = ''C'', Event = ''OK''\<rparr>"

text \<open>
  Which names of the cache directory make \<open>flushSensorSDRCache\<close> call the flush: the name
  contains the host, the file can be examined, and the month of its modification differs
  from today's or, in the same month, its day is earlier.
\<close>

definition flushes :: "env \<Rightarrow> time \<Rightarrow> string \<Rightarrow> string \<Rightarrow> bool" where
  "flushes e nextTick host name =
     (Contains name host \<and>
      (case Stat e (sdrCacheDirectoy @ name) of
         Inl er \<Rightarrow> False
       | Inr modTime \<Rightarrow>
           (if Month modTime = Month nextTick then Day modTime < Day nextTick else True)))"

definition flushInvocation :: "string \<Rightarrow> string \<Rightarrow> invocation" where
  "flushInvocation cfg host =
     \<lparr>cmd = ''ipmi-sensors'', args = [''--flush-cache''], config = cfg, target = host\<rparr>"

text \<open>
  A cache file of the host \<open>host1\<close> last modified on 20 May 2023, seen on 10 May 2024
  at noon.
\<close>

definition yearOldEnv :: env where
  "yearOldEnv = \<lparr>
     respond = (\<lambda>h call. \<lparr>output = [], err = None\<rparr>),
     Open = None,
     Readdir = Inr [''sdr-cache-node01.host1''],
     Stat = (\<lambda>p. Inr \<lparr>Year = 2023, Month = 5, Day = 20, clock = 0\<rparr>),
     Now = \<lparr>Year = 2024, Month = 5, Day = 10, clock = 43200000000000\<rparr>,
     pathJoin = (\<lambda>dir file. dir @ ''/'' @ file),
     executablesPath = ''/usr/sbin'',
     elapsed = Finite 1\<rparr>"

text \<open>
  What the statement about the orchestrator asks of a collector: \<open>Collect\<close> returns,
  and none of the metrics it sends is the up indicator.
\<close>

definition isUp :: "metric \<Rightarrow> bool" where
  "isUp m = (desc m = upDesc)"

definition sendsNoUp :: "(metric list \<times> int \<times> error option) outcome \<Rightarrow> bool" where
  "sendsNoUp x =
     (case x of
        Panic p \<Rightarrow> False
      | Returned res \<Rightarrow> filter isUp (fst res) = [])"

definition wellBehaved :: "collector \<Rightarrow> string \<Rightarrow> bool" where
  "wellBehaved c host = (\<forall>r. sendsNoUp (Collect c r host))"

definition collectorInvocation :: "env \<Rightarrow> string \<Rightarrow> string \<Rightarrow> collector \<Rightarrow> invocation" where
  "collectorInvocation e cfg host c =
     \<lparr>cmd = pathJoin e (executablesPath e) (Cmd c), args = Args c, config = cfg, target = host\<rparr>"

text \<open>
  A world without a cache directory in which the first command fails with a time-out and
  every later one reports that the power is on.
\<close>

definition failFirstEnv :: env where
  "failFirstEnv = \<lparr>
     respond = (\<lambda>h call. if h = [] then \<lparr>output = timeoutOutput, err = Some exitError\<rparr>
                         else \<lparr>output = powerOnOutput, err = None\<rparr>),
     Open = Some (Errorf ''open /root/.freeipmi/sdr-cache/: no such file or directory''),
     Readdir = Inr [],
     Stat = (\<lambda>p. Inl (Errorf ''no such file or directory'')),
     Now = \<lparr>Year = 2024, Month = 5, Day = 10, clock = 0\<rparr>,
     pathJoin = (\<lambda>dir file. dir @ ''/'' @ file),
     executablesPath = ''/usr/sbin'',
     elapsed = Finite 1\<rparr>"

definition twoChassis :: ipmiConfig where
  "twoChassis = \<lparr>GetCollectors = [ChassisCollector, ChassisCollector], GetFreeipmiConfig = []\<rparr>"

definition chassisInvocation :: invocation where
  "chassisInvocation =
     \<lparr>cmd = ''/usr/sbin/ipmi-chassis'', args = [''--get-chassis-status''], config = [],
      target = ''host1''\<rparr>"

text \<open>
  A scrape of three collectors, the chassis collector, the sensor collector and the
  chassis collector again, in a world without a cache directory in which the sensor
  command prints the one short row \<open>12,Fan1\<close> and the chassis command reports that the
  power is on.
\<close>

definition shortRowOutput :: string where
  "shortRowOutput = ''12,Fan1''"

definition exampleSensorCollector :: collector where
  "exampleSensorCollector =
     SensorCollector ''ipmi''
       [''--comma-separated-output'', ''--no-header-output'', ''--output-sensor-state''] []
       (\<lambda>d. [\<lparr>desc = ''ipmi_sensor_value'', val = Value d, labelValues = [SensorData.Name d, Type d]\<rparr>])"

definition shortRowEnv :: env where
  "shortRowEnv = \<lparr>
     respond = (\<lambda>h call. if cmd call = ''/usr/sbin/ipmi-sensors''
                         then \<lparr>output = shortRowOutput, err = None\<rparr>
                         else \<lparr>output = powerOnOutput, err = None\<rparr>),
     Open = Some (Errorf ''open /root/.freeipmi/sdr-cache/: no such file or directory''),
     Readdir = Inr [],
     Stat = (\<lambda>p. Inl (Errorf ''no such file or directory'')),
     Now = \<lparr>Year = 2024, Month = 5, Day = 10, clock = 0\<rparr>,
     pathJoin = (\<lambda>dir file. dir @ ''/'' @ file),
     executablesPath = ''/usr/sbin'',
     elapsed = Finite 1\<rparr>"

definition threeCollectors :: ipmiConfig where
  "threeCollectors =
     \<lparr>GetCollectors = [ChassisCollector, exampleSensorCollector, ChassisCollector],
      GetFreeipmiConfig = []\<rparr>"

definition sensorInvocation :: invocation where
  "sensorInvocation =
     \<lparr>cmd = ''/usr/sbin/ipmi-sensors'',
      args = [''--comma-separated-output'', ''--no-header-output'', ''--output-sensor-state''],
      config = [], target = ''host1''\<rparr>"

section \<open>Evaluating the library functions\<close>

lemmas char_defs = LF_def CR_def TAB_def FF_def DQUOTE_def SQUOTE_def

lemmas strconv_defs = ParseInt_def ParseUint_def isDigit_def digitVal_def ParseFloat_def
  special_def readFloat_def isSign_def toLowerASCII_def ipow_def

lemmas csv_defs = ReadAll_def countOK_def consRecord_def

lemmas row_defs = sensorRow_def index_def andThen_def Trim_def

lemmas regexp_defs = stripPrefix_def isSpace_def isNumDot_def matched_def isLF_def Let_def

section \<open>Tabular extraction\<close>

text \<open>
  C6. Tabular extraction of the single row \<open>12,Fan1,Fan,Nominal,3200,RPM,'OK'\<close>, with no
  exclusions and a command that succeeded, gives exactly one record: id 12, name
  \<open>Fan1\<close>, type \<open>Fan\<close>, state \<open>Nominal\<close>, value 3200, unit \<open>RPM\<close>, and the event \<open>OK\<close>
  without its single quotes.
\<close>

theorem GetSensorData_fan_row:
  "GetSensorData \<lparr>output = fanRow, err = None\<rparr> [] =
     Returned ([\<lparr>ID = 12, Name = ''Fan1'', Type = ''Fan'', State = ''Nominal'',
                 Value = Finite 3200, Unit = ''RPM'', Event = ''OK''\<rparr>], None)"
  by (simp add: GetSensorData_def fanRow_def csv_defs char_defs row_defs strconv_defs)

text \<open>
  C4. The claim is that a row with fewer than seven fields is reported as a parse error
  and never as an access out of range. The function has no such check: on the row
  \<open>12,Fan1\<close> the CSV reader gives a record of two fields, the id is read, and
  \<open>line[2]\<close> panics.
\<close>

theorem GetSensorData_short_row_panics:
  "GetSensorData \<lparr>output = ''12,Fan1'', err = None\<rparr> [] = Panic (IndexOutOfRange 2 2)"
  by (simp add: GetSensorData_def csv_defs char_defs row_defs strconv_defs)

subsection \<open>One row\<close>

lemma contains_set: "contains ex i = (i \<in> set ex)"
  by (induction ex) auto

text \<open>With seven fields or more no index is out of range, and the row is decided by its id and its value.\<close>

lemma sensorRow_seven:
  "7 \<le> length line \<Longrightarrow>
   sensorRow line ex =
     (case ParseInt (line ! 0) of
        Inl e \<Rightarrow> Returned (Fail e)
      | Inr i \<Rightarrow>
          if i \<in> set ex then Returned Skip
          else if line ! 4 = ''N/A'' then Returned (Row (rowRecord line))
          else (case ParseFloat (line ! 4) of
                  Inl e \<Rightarrow> Returned (Fail e)
                | Inr v \<Rightarrow> Returned (Row (rowRecord line))))"
proof -
  assume len: "7 \<le> length line"
  then have ne: "line \<noteq> []" by auto
  show ?thesis
    using len ne
    by (simp add: sensorRow_def index_def andThen_def rowRecord_def rowID_def rowValue_def
        contains_set split: sum.splits)
qed

lemma sensorRow_excluded:
  "line \<noteq> [] \<Longrightarrow> ParseInt (line ! 0) = Inr i \<Longrightarrow> i \<in> set ex \<Longrightarrow>
   sensorRow line ex = Returned Skip"
  by (simp add: sensorRow_def index_def andThen_def contains_set)

lemma sensorRow_Row:
  assumes "sensorRow line ex = Returned (Row d)"
  shows "7 \<le> length line" and "d = rowRecord line"
    and "line ! 4 = ''N/A'' \<or> isOK (ParseFloat (line ! 4))"
proof -
  show len: "7 \<le> length line"
  proof (rule ccontr)
    assume "\<not> 7 \<le> length line"
    then have "index line 6 = Panic (IndexOutOfRange 6 (length line))"
      by (simp add: index_def)
    with assms show False
      by (simp add: sensorRow_def andThen_def split: outcome.splits sum.splits if_splits)
  qed
  from assms sensorRow_seven [OF len, of ex]
  show "d = rowRecord line" and "line ! 4 = ''N/A'' \<or> isOK (ParseFloat (line ! 4))"
    by (auto simp: isOK_def split: sum.splits if_splits)
qed

subsection \<open>When \<open>ParseFloat\<close> gives not-a-number\<close>

lemma toLowerASCII_sign:
  "toLowerASCII (CHR ''+'') = CHR ''+''" "toLowerASCII (CHR ''-'') = CHR ''-''"
  by (simp_all add: toLowerASCII_def)

lemma isSign_lower: "isSign c \<Longrightarrow> toLowerASCII c = c"
  unfolding isSign_def by (elim disjE) (simp_all only: toLowerASCII_sign)

lemma ParseFloat_NaN: "ParseFloat s = Inr NaN \<longleftrightarrow> map toLowerASCII s = ''nan''"
proof
  assume "ParseFloat s = Inr NaN"
  then have "special s = Some NaN"
    by (auto simp: ParseFloat_def split: option.splits if_splits)
  then show "map toLowerASCII s = ''nan''"
    by (simp add: special_def split: if_splits)
next
  assume l: "map toLowerASCII s = ''nan''"
  then obtain c cs where s: "s = c # cs" by (cases s) auto
  with l have n: "toLowerASCII c = CHR ''n''" by simp
  have "\<not> isSign c"
  proof
    assume sg: "isSign c"
    then have "toLowerASCII c = c" by (rule isSign_lower)
    with n have "c = CHR ''n''" by simp
    with sg show False by (simp add: isSign_def)
  qed
  with l s have "special s = Some NaN" by (simp add: special_def)
  then show "ParseFloat s = Inr NaN" by (simp add: ParseFloat_def)
qed

subsection \<open>The loop over the rows\<close>

text \<open>
  Rows with seven fields that do not stop the parse are consumed one by one: an excluded
  row leaves the result as it is, any other row appends its record.
\<close>

lemma sensorLoop_prefix:
  "\<forall>line \<in> set pre. 7 \<le> length line \<and> \<not> malformedRow ex line \<Longrightarrow>
   sensorLoop (pre @ rest) ex acc =
     sensorLoop rest ex (acc @ map rowRecord (filter (\<lambda>line. rowID line \<notin> set ex) pre))"
proof (induction pre arbitrary: acc)
  case Nil
  then show ?case by simp
next
  case (Cons line pre)
  then have len: "7 \<le> length line" and ok: "\<not> malformedRow ex line"
    and others: "\<forall>l \<in> set pre. 7 \<le> length l \<and> \<not> malformedRow ex l"
    by simp_all
  show ?case
    using ok Cons.IH [OF others]
    by (auto simp: sensorRow_seven [OF len] malformedRow_def rowID_def split: sum.splits if_splits)
qed

lemma sensorLoop_stops:
  "7 \<le> length bad \<Longrightarrow> malformedRow ex bad \<Longrightarrow>
   sensorLoop (bad # post) ex acc = Returned (acc, Some (rowError bad))"
  by (auto simp: sensorRow_seven malformedRow_def rowError_def split: sum.splits if_splits)

lemma wellFormed_not_malformed:
  "wellFormedRow line \<Longrightarrow> 7 \<le> length line \<and> \<not> malformedRow ex line"
  by (auto simp: wellFormedRow_def malformedRow_def isOK_def split: sum.splits if_splits)

lemma sensorLoop_skips_excluded:
  "line \<noteq> [] \<Longrightarrow> ParseInt (line ! 0) = Inr i \<Longrightarrow> i \<in> set ex \<Longrightarrow>
   sensorLoop (pre @ line # post) ex acc = sensorLoop (pre @ post) ex acc"
proof (induction pre arbitrary: acc)
  case Nil
  then show ?case by (simp add: sensorRow_excluded)
next
  case (Cons a pre)
  then show ?case by (simp split: outcome.splits row.splits)
qed

lemma ReadAll_fanTempTable: "ReadAll fanTempTable = Inr [fanFields, tempFields]"
  by (simp add: fanTempTable_def fanRow_def tempRow_def fanFields_def tempFields_def csv_defs
      char_defs)

lemma ReadAll_tempBadTable: "ReadAll tempBadTable = Inr [tempFields, badValueFields]"
  by (simp add: tempBadTable_def tempRow_def badValueRow_def tempFields_def badValueFields_def
      csv_defs char_defs)

lemma ReadAll_badValueRow: "ReadAll badValueRow = Inr [badValueFields]"
  by (simp add: badValueRow_def badValueFields_def csv_defs char_defs)

lemma ReadAll_nanRow: "ReadAll nanRow = Inr [nanFields]"
  by (simp add: nanRow_def nanFields_def csv_defs char_defs)

lemma ReadAll_naRow: "ReadAll naRow = Inr [naFields]"
  by (simp add: naRow_def naFields_def csv_defs char_defs)

lemma ParseInt_12: "ParseInt ''12'' = Inr 12"
  by (simp add: strconv_defs)

lemma ParseInt_13: "ParseInt ''13'' = Inr 13"
  by (simp add: strconv_defs)

lemma ParseFloat_abc: "ParseFloat ''abc'' = Inl (NumError ''ParseFloat'' ''abc'' ErrSyntax)"
  by (simp add: strconv_defs)

lemma ParseFloat_3200: "ParseFloat ''3200'' = Inr (Finite 3200)"
  by (simp add: strconv_defs)

lemma ParseFloat_45_5: "ParseFloat ''45.5'' = Inr (Finite (91 / 2))"
  by (simp add: strconv_defs)

lemmas example_values = ParseInt_12 ParseInt_13 ParseFloat_abc ParseFloat_3200 ParseFloat_45_5

text \<open>
  C8. On a well-formed table (every row has its seven fields, an integer id, and a value
  that is \<open>N/A\<close> or a decimal) and for every list of excluded ids, tabular extraction
  returns, in order and without error, the records of exactly the rows whose id is not
  excluded.
\<close>

theorem GetSensorData_exclusion:
  assumes "err r = None"
    and "ReadAll (output r) = Inr rows"
    and "\<forall>line \<in> set rows. wellFormedRow line"
  shows "GetSensorData r ex =
           Returned (map rowRecord (filter (\<lambda>line. rowID line \<notin> set ex) rows), None)"
proof -
  from assms(3) have "\<forall>line \<in> set rows. 7 \<le> length line \<and> \<not> malformedRow ex line"
    using wellFormed_not_malformed by blast
  from sensorLoop_prefix [OF this, of "[]" "[]"]
  have "sensorLoop rows ex [] =
          Returned (map rowRecord (filter (\<lambda>line. rowID line \<notin> set ex) rows), None)"
    by simp
  with assms(1,2) show ?thesis by (simp add: GetSensorData_def)
qed

text \<open>
  In particular, excluding sensor id 12 from the table of the two rows
  \<open>12,Fan1,Fan,Nominal,3200,RPM,'OK'\<close> and \<open>13,Temp1,Temperature,Nominal,45.5,C,'OK'\<close>
  gives the one record of sensor 13.
\<close>

theorem GetSensorData_exclusion_witness:
  "GetSensorData \<lparr>output = fanTempTable, err = None\<rparr> [12] = Returned ([tempRecord], None)"
proof -
  let ?r = "\<lparr>output = fanTempTable, err = None\<rparr>"
  have e: "err ?r = None" by simp
  have ra: "ReadAll (output ?r) = Inr [fanFields, tempFields]"
    by (simp add: ReadAll_fanTempTable)
  have wf: "\<forall>line \<in> set [fanFields, tempFields]. wellFormedRow line"
    by (simp add: wellFormedRow_def isOK_def fanFields_def tempFields_def example_values)
  from GetSensorData_exclusion [OF e ra wf, of "[12]"] show ?thesis
    by (simp add: rowRecord_def rowID_def rowValue_def fanFields_def tempFields_def
        example_values tempRecord_def Trim_def SQUOTE_def)
qed

text \<open>
  C10. A row whose id parses to an excluded integer is dropped before any other field of
  it is read: the loop over a table with such a row gives what it gives on the table
  without the row, whatever the value field holds.
\<close>

theorem sensorLoop_excluded_row_dropped:
  assumes "line \<noteq> []"
    and "ParseInt (line ! 0) = Inr i"
    and "i \<in> set ex"
  shows "sensorLoop (pre @ line # post) ex acc = sensorLoop (pre @ post) ex acc"
  using assms by (rule sensorLoop_skips_excluded)

text \<open>
  The row of sensor 13 followed by a row of the excluded sensor 12 whose value \<open>abc\<close> is
  no decimal: the record of sensor 13 is returned without error.
\<close>

theorem sensorLoop_excluded_row_dropped_witness:
  "\<not> isOK (ParseFloat (badValueFields ! 4)) \<and>
   GetSensorData \<lparr>output = tempBadTable, err = None\<rparr> [12] = Returned ([tempRecord], None)"
proof -
  have "sensorLoop ([tempFields] @ badValueFields # []) [12] [] =
          sensorLoop ([tempFields] @ []) [12] []"
    by (rule sensorLoop_excluded_row_dropped [where i = 12])
      (simp_all add: badValueFields_def example_values)
  also have "\<dots> = Returned ([tempRecord], None)"
    by (simp add: row_defs tempFields_def example_values tempRecord_def SQUOTE_def)
  finally have "sensorLoop [tempFields, badValueFields] [12] [] = Returned ([tempRecord], None)"
    by simp
  then show ?thesis
    by (simp add: GetSensorData_def ReadAll_tempBadTable isOK_def badValueFields_def
        example_values)
qed

text \<open>
  C5, as it stands, fails on a row that is excluded: its value is never parsed. The
  row \<open>12,Fan1,Fan,Nominal,abc,RPM,'OK'\<close> has a value that is no decimal and is not
  \<open>N/A\<close>, and with sensor 12 excluded the parse returns no error.
\<close>

theorem GetSensorData_malformed_row_counterexample:
  "ReadAll badValueRow = Inr [badValueFields] \<and>
   \<not> isOK (ParseFloat (badValueFields ! 4)) \<and> badValueFields ! 4 \<noteq> ''N/A'' \<and>
   GetSensorData \<lparr>output = badValueRow, err = None\<rparr> [12] = Returned ([], None)"
  by (simp add: GetSensorData_def ReadAll_badValueRow badValueFields_def row_defs isOK_def
      example_values)

text \<open>
  C5, amended. In a table whose rows all have seven fields or more, let some row have an
  id that is no integer, or an id that is not excluded and a value that is neither
  \<open>N/A\<close> nor a decimal. Then the parse stops at the first such row: it returns the
  error of that row, with the records of the rows before it and nothing of the rows
  after it.
\<close>

theorem GetSensorData_malformed_row:
  assumes "err r = None"
    and "ReadAll (output r) = Inr rows"
    and "\<forall>line \<in> set rows. 7 \<le> length line"
    and "\<exists>line \<in> set rows. malformedRow ex line"
  shows "\<exists>pre bad post. rows = pre @ bad # post \<and> malformedRow ex bad \<and>
           (\<forall>line \<in> set pre. \<not> malformedRow ex line) \<and>
           GetSensorData r ex =
             Returned (map rowRecord (filter (\<lambda>line. rowID line \<notin> set ex) pre),
                       Some (rowError bad))"
proof -
  from assms(4) obtain pre bad post where
    split: "rows = pre @ bad # post" and bad: "malformedRow ex bad"
    and first: "\<forall>line \<in> set pre. \<not> malformedRow ex line"
    using split_list_first_prop [of rows "malformedRow ex"] by blast
  from assms(3) split first
  have pre: "\<forall>line \<in> set pre. 7 \<le> length line \<and> \<not> malformedRow ex line"
    and len: "7 \<le> length bad"
    by simp_all
  have "sensorLoop rows ex [] =
          Returned (map rowRecord (filter (\<lambda>line. rowID line \<notin> set ex) pre), Some (rowError bad))"
    unfolding split
    by (simp only: sensorLoop_prefix [OF pre] sensorLoop_stops [OF len bad] append_Nil)
  with assms(1,2) have "GetSensorData r ex =
      Returned (map rowRecord (filter (\<lambda>line. rowID line \<notin> set ex) pre), Some (rowError bad))"
    by (simp add: GetSensorData_def)
  with split bad first show ?thesis by blast
qed

text \<open>
  The row of sensor 13 followed by the row of sensor 12 with the value \<open>abc\<close>, nothing
  excluded: the parse returns the syntax error of \<open>ParseFloat\<close>.
\<close>

theorem GetSensorData_malformed_row_witness:
  "\<exists>res e. GetSensorData \<lparr>output = tempBadTable, err = None\<rparr> [] = Returned (res, Some e)"
proof -
  let ?r = "\<lparr>output = tempBadTable, err = None\<rparr>"
  have e: "err ?r = None" by simp
  have ra: "ReadAll (output ?r) = Inr [tempFields, badValueFields]"
    by (simp add: ReadAll_tempBadTable)
  have len: "\<forall>line \<in> set [tempFields, badValueFields]. 7 \<le> length line"
    by (simp add: tempFields_def badValueFields_def)
  have bad: "\<exists>line \<in> set [tempFields, badValueFields]. malformedRow [] line"
    by (simp add: malformedRow_def badValueFields_def example_values)
  from GetSensorData_malformed_row [OF e ra len bad] show ?thesis by blast
qed

text \<open>
  C7, as it stands, fails on a value field that spells \<open>NaN\<close>: \<open>ParseFloat\<close> reads it as
  not-a-number without error, so the record's value is NaN although the field is not
  \<open>N/A\<close>.
\<close>

theorem GetSensorData_NaN_counterexample:
  "ReadAll nanRow = Inr [nanFields] \<and> nanFields ! 4 = ''NaN'' \<and> ''NaN'' \<noteq> ''N/A'' \<and>
   GetSensorData \<lparr>output = nanRow, err = None\<rparr> [] = Returned ([fanRecord NaN], None)"
  by (simp add: GetSensorData_def ReadAll_nanRow nanFields_def row_defs strconv_defs
      fanRecord_def SQUOTE_def)

text \<open>
  C7, amended. When a row gives a record, the value of the record is NaN exactly when
  the value field is the literal \<open>N/A\<close> or spells \<open>nan\<close> in any mix of upper and lower
  case. A row with seven fields or more, an integer id that is not excluded and the
  value \<open>N/A\<close> gives its record, with the value NaN, and no error.
\<close>

theorem sensorRow_value_NaN:
  "(sensorRow line ex = Returned (Row d) \<longrightarrow>
      (Value d = NaN \<longleftrightarrow> line ! 4 = ''N/A'' \<or> map toLowerASCII (line ! 4) = ''nan'')) \<and>
   (7 \<le> length line \<and> isOK (ParseInt (line ! 0)) \<and> rowID line \<notin> set ex \<and> line ! 4 = ''N/A'' \<longrightarrow>
      sensorRow line ex = Returned (Row (rowRecord line)) \<and> Value (rowRecord line) = NaN)"
proof (intro conjI impI)
  assume row: "sensorRow line ex = Returned (Row d)"
  from sensorRow_Row [OF row] have d: "d = rowRecord line"
    and v: "line ! 4 = ''N/A'' \<or> isOK (ParseFloat (line ! 4))"
    by simp_all
  show "Value d = NaN \<longleftrightarrow> line ! 4 = ''N/A'' \<or> map toLowerASCII (line ! 4) = ''nan''"
  proof (cases "line ! 4 = ''N/A''")
    case True
    with d show ?thesis by (simp add: rowRecord_def rowValue_def)
  next
    case False
    with v obtain x where x: "ParseFloat (line ! 4) = Inr x"
      by (auto simp: isOK_def split: sum.splits)
    with False d have "Value d = x" by (simp add: rowRecord_def rowValue_def)
    with x False ParseFloat_NaN [of "line ! 4"] show ?thesis by auto
  qed
next
  assume a: "7 \<le> length line \<and> isOK (ParseInt (line ! 0)) \<and> rowID line \<notin> set ex \<and> line ! 4 = ''N/A''"
  then have len: "7 \<le> length line" by simp
  from a show "sensorRow line ex = Returned (Row (rowRecord line))"
    by (auto simp: sensorRow_seven [OF len] isOK_def rowID_def split: sum.splits)
  from a show "Value (rowRecord line) = NaN"
    by (simp add: rowRecord_def rowValue_def)
qed

text \<open>
  The row \<open>12,Fan1,Fan,Nominal,N/A,RPM,'OK'\<close> gives a record whose value is NaN, and
  the parse of the table made of this row returns it without error.
\<close>

theorem sensorRow_value_NaN_witness:
  "sensorRow naFields [] = Returned (Row (fanRecord NaN)) \<and>
   (Value (fanRecord NaN) = NaN \<longleftrightarrow>
      naFields ! 4 = ''N/A'' \<or> map toLowerASCII (naFields ! 4) = ''nan'') \<and>
   GetSensorData \<lparr>output = naRow, err = None\<rparr> [] = Returned ([fanRecord NaN], None)"
proof -
  have row: "sensorRow naFields [] = Returned (Row (fanRecord NaN))"
    by (simp add: row_defs naFields_def fanRecord_def example_values SQUOTE_def)
  have all: "GetSensorData \<lparr>output = naRow, err = None\<rparr> [] = Returned ([fanRecord NaN], None)"
    by (simp add: GetSensorData_def ReadAll_naRow row)
  from sensorRow_value_NaN [of naFields "[]" "fanRecord NaN"] row all show ?thesis by simp
qed

section \<open>Single-value extraction\<close>

subsection \<open>\<open>getValue\<close> on a pattern with a group named \<open>value\<close>\<close>

lemma subexpLoop_value:
  "''value'' \<in> set names \<Longrightarrow>
   i + length (takeWhile (\<lambda>name. \<not> isValueName name) names) < length match \<Longrightarrow>
   subexpLoop names i match =
     Returned (Some (match ! (i + length (takeWhile (\<lambda>name. \<not> isValueName name) names))))"
proof (induction names arbitrary: i)
  case Nil
  then show ?case by simp
next
  case (Cons name names)
  show ?case
  proof (cases "name = ''value''")
    case True
    with Cons.prems show ?thesis by (simp add: isValueName_def index_def andThen_def)
  next
    case False
    with Cons.prems have "''value'' \<in> set names"
      and "Suc i + length (takeWhile (\<lambda>name. \<not> isValueName name) names) < length match"
      by (simp_all add: isValueName_def)
    from Cons.IH [OF this] False show ?thesis by (simp add: isValueName_def)
  qed
qed

lemma takeWhile_value_less:
  "''value'' \<in> set names \<Longrightarrow>
   length (takeWhile (\<lambda>name. \<not> isValueName name) names) < length names"
  by (induction names) (auto simp: isValueName_def)

lemma valueGroup_less:
  "''value'' \<in> set (SubexpNames regex) \<Longrightarrow> valueGroup regex < length (SubexpNames regex)"
  unfolding valueGroup_def by (rule takeWhile_value_less)

lemma lineLoop_labelled:
  assumes "labelled regex"
  shows "lineLoop regex lines =
           Returned (case firstMatch regex lines of
                       None \<Rightarrow> None
                     | Some match \<Rightarrow> Some (match ! valueGroup regex))"
proof (induction lines)
  case Nil
  then show ?case by simp
next
  case (Cons line lines)
  show ?case
  proof (cases "FindStringSubmatch regex line")
    case None
    with Cons show ?thesis by simp
  next
    case (Some match)
    from assms have v: "''value'' \<in> set (SubexpNames regex)" by (simp add: labelled_def)
    from assms Some have "length match = length (SubexpNames regex)" by (simp add: labelled_def)
    with valueGroup_less [OF v] have "0 + valueGroup regex < length match" by simp
    from subexpLoop_value [OF v this [unfolded valueGroup_def]]
    have "subexpLoop (SubexpNames regex) 0 match = Returned (Some (match ! valueGroup regex))"
      by (simp add: valueGroup_def)
    with Some show ?thesis by simp
  qed
qed

lemma getValue_labelled:
  "labelled regex \<Longrightarrow>
   getValue out regex =
     Returned (case firstMatch regex (Split_nl out) of
                 Some match \<Rightarrow> Inr (match ! valueGroup regex)
               | None \<Rightarrow> Inl (Errorf (''could not find value in output: '' @ out)))"
  by (simp add: getValue_def lineLoop_labelled split: option.splits)

lemma firstMatch_Some_iff:
  "(\<exists>match. firstMatch regex lines = Some match) \<longleftrightarrow>
   (\<exists>line \<in> set lines. FindStringSubmatch regex line \<noteq> None)"
  by (induction lines) (auto split: option.splits)

lemma labelled_DCMI: "labelled ipmiDCMICurrentPowerRegex"
  by (auto simp: labelled_def ipmiDCMICurrentPowerRegex_def Let_def split: option.splits)

lemma labelled_Chassis: "labelled ipmiChassisPowerRegex"
  by (auto simp: labelled_def ipmiChassisPowerRegex_def Let_def split: option.splits list.splits if_splits)

lemma labelled_FirmwareRevision: "labelled bmcInfoFirmwareRevisionRegex"
  by (auto simp: labelled_def bmcInfoFirmwareRevisionRegex_def Let_def split: option.splits)

lemma labelled_ManufacturerID: "labelled bmcInfoManufacturerIDRegex"
  by (auto simp: labelled_def bmcInfoManufacturerIDRegex_def Let_def split: option.splits)

lemma valueGroup_regexes:
  "valueGroup ipmiDCMICurrentPowerRegex = 1" "valueGroup ipmiChassisPowerRegex = 1"
  "valueGroup bmcInfoFirmwareRevisionRegex = 1" "valueGroup bmcInfoManufacturerIDRegex = 1"
  by (simp_all add: valueGroup_def isValueName_def ipmiDCMICurrentPowerRegex_def
      ipmiChassisPowerRegex_def bmcInfoFirmwareRevisionRegex_def bmcInfoManufacturerIDRegex_def)

lemma GetBMCInfoFirmwareRevision_eq:
  "GetBMCInfoFirmwareRevision r =
     Returned (case firstMatch bmcInfoFirmwareRevisionRegex (Split_nl (output r)) of
                 Some match \<Rightarrow> Inr (match ! 1)
               | None \<Rightarrow>
                   (case err r of
                      Some e \<Rightarrow> Inl (ErrorfCmd e (output r))
                    | None \<Rightarrow> Inl (Errorf (''could not find value in output: '' @ output r))))"
  by (simp add: GetBMCInfoFirmwareRevision_def getValue_labelled [OF labelled_FirmwareRevision]
      valueGroup_regexes andThen_def split: option.splits)

lemma GetBMCInfoManufacturerID_eq:
  "GetBMCInfoManufacturerID r =
     Returned (case firstMatch bmcInfoManufacturerIDRegex (Split_nl (output r)) of
                 Some match \<Rightarrow> Inr (match ! 1)
               | None \<Rightarrow>
                   (case err r of
                      Some e \<Rightarrow> Inl (ErrorfCmd e (output r))
                    | None \<Rightarrow> Inl (Errorf (''could not find value in output: '' @ output r))))"
  by (simp add: GetBMCInfoManufacturerID_def getValue_labelled [OF labelled_ManufacturerID]
      valueGroup_regexes andThen_def split: option.splits)

lemma ParseFloat_150_500: "ParseFloat ''150.500'' = Inr (Finite 150.5)"
  by (simp add: strconv_defs)

lemma firstMatch_dcmiOutput:
  "firstMatch ipmiDCMICurrentPowerRegex (Split_nl dcmiOutput) = Some [dcmiOutput, ''150.500'']"
  by (simp add: dcmiOutput_def ipmiDCMICurrentPowerRegex_def regexp_defs char_defs isDigit_def)

lemma firstMatch_noPowerOutput:
  "firstMatch ipmiDCMICurrentPowerRegex (Split_nl timeoutOutput) = None"
  by (simp add: timeoutOutput_def ipmiDCMICurrentPowerRegex_def regexp_defs char_defs)

text \<open>
  C9. For every output and every pattern with a group named \<open>value\<close>, single-value
  extraction scans the lines of the output in order and returns what the first matching
  line captured in that group; when no line matches it returns the error whose text is
  \<open>could not find value in output: \<close> followed by the whole output. In particular the
  DCMI power read from \<open>Current Power        : 150.500 Watts (Active)\<close> is 150.5.
\<close>

theorem getValue_first_captured:
  "(labelled regex \<longrightarrow>
      getValue out regex =
        Returned (case firstMatch regex (Split_nl out) of
                    Some match \<Rightarrow> Inr (match ! valueGroup regex)
                  | None \<Rightarrow> Inl (Errorf (''could not find value in output: '' @ out)))) \<and>
   GetCurrentPowerConsumption \<lparr>output = dcmiOutput, err = None\<rparr> = Returned (Inr (Finite 150.5))"
proof (intro conjI impI)
  assume "labelled regex"
  then show "getValue out regex =
      Returned (case firstMatch regex (Split_nl out) of
                  Some match \<Rightarrow> Inr (match ! valueGroup regex)
                | None \<Rightarrow> Inl (Errorf (''could not find value in output: '' @ out)))"
    by (rule getValue_labelled)
next
  show "GetCurrentPowerConsumption \<lparr>output = dcmiOutput, err = None\<rparr> =
          Returned (Inr (Finite 150.5))"
    by (simp add: GetCurrentPowerConsumption_def getValue_labelled [OF labelled_DCMI]
        firstMatch_dcmiOutput valueGroup_regexes andThen_def ParseFloat_150_500)
qed

text \<open>
  The DCMI pattern on the line above gives the text \<open>150.500\<close>; on an output without
  such a line it gives the error with the output in its text.
\<close>

theorem getValue_first_captured_witness:
  "labelled ipmiDCMICurrentPowerRegex \<and>
   getValue dcmiOutput ipmiDCMICurrentPowerRegex = Returned (Inr ''150.500'') \<and>
   getValue timeoutOutput ipmiDCMICurrentPowerRegex =
     Returned (Inl (Errorf (''could not find value in output: '' @ timeoutOutput)))"
  using getValue_first_captured [of ipmiDCMICurrentPowerRegex dcmiOutput]
    getValue_first_captured [of ipmiDCMICurrentPowerRegex timeoutOutput]
  by (simp add: labelled_DCMI firstMatch_dcmiOutput firstMatch_noPowerOutput valueGroup_regexes)

subsection \<open>The identity fields of the BMC\<close>

lemma firstMatch_bmcOutput:
  "firstMatch bmcInfoFirmwareRevisionRegex (Split_nl bmcOutput) =
     Some [''Firmware Revision : 1.23'', ''1.23'']"
  "firstMatch bmcInfoManufacturerIDRegex (Split_nl bmcOutput) =
     Some [''Manufacturer ID   : Dell Inc. (674)'', ''Dell Inc. (674)'']"
  by (simp_all add: bmcOutput_def bmcInfoFirmwareRevisionRegex_def bmcInfoManufacturerIDRegex_def
      regexp_defs char_defs isDigit_def)

lemma firstMatch_timeoutOutput:
  "firstMatch bmcInfoFirmwareRevisionRegex (Split_nl timeoutOutput) = None"
  "firstMatch bmcInfoManufacturerIDRegex (Split_nl timeoutOutput) = None"
  by (simp_all add: timeoutOutput_def bmcInfoFirmwareRevisionRegex_def
      bmcInfoManufacturerIDRegex_def regexp_defs char_defs)

text \<open>
  C2. Let the result of the command carry an error (the command exited with a non-zero
  status). If a line of the output matches the pattern of the field, the extraction of
  the firmware revision, and likewise of the manufacturer id, returns what the first such
  line captured, and no error. If no line matches, it returns the error made of the
  error of the command and the output, not the error of the failed search.
\<close>

theorem GetBMCInfo_recovery:
  assumes "err r = Some e"
  shows
    "((\<exists>line \<in> set (Split_nl (output r)).
         FindStringSubmatch bmcInfoFirmwareRevisionRegex line \<noteq> None) \<longrightarrow>
      (\<exists>match. firstMatch bmcInfoFirmwareRevisionRegex (Split_nl (output r)) = Some match \<and>
         GetBMCInfoFirmwareRevision r = Returned (Inr (match ! 1)))) \<and>
     ((\<forall>line \<in> set (Split_nl (output r)).
         FindStringSubmatch bmcInfoFirmwareRevisionRegex line = None) \<longrightarrow>
      GetBMCInfoFirmwareRevision r = Returned (Inl (ErrorfCmd e (output r)))) \<and>
     ((\<exists>line \<in> set (Split_nl (output r)).
         FindStringSubmatch bmcInfoManufacturerIDRegex line \<noteq> None) \<longrightarrow>
      (\<exists>match. firstMatch bmcInfoManufacturerIDRegex (Split_nl (output r)) = Some match \<and>
         GetBMCInfoManufacturerID r = Returned (Inr (match ! 1)))) \<and>
     ((\<forall>line \<in> set (Split_nl (output r)).
         FindStringSubmatch bmcInfoManufacturerIDRegex line = None) \<longrightarrow>
      GetBMCInfoManufacturerID r = Returned (Inl (ErrorfCmd e (output r))))"
proof -
  have some: "GetBMCInfoFirmwareRevision r = Returned (Inr (match ! 1))"
    if "firstMatch bmcInfoFirmwareRevisionRegex (Split_nl (output r)) = Some match" for match
    using that by (simp add: GetBMCInfoFirmwareRevision_eq)
  have none: "GetBMCInfoFirmwareRevision r = Returned (Inl (ErrorfCmd e (output r)))"
    if "firstMatch bmcInfoFirmwareRevisionRegex (Split_nl (output r)) = None"
    using that assms by (simp add: GetBMCInfoFirmwareRevision_eq)
  have some': "GetBMCInfoManufacturerID r = Returned (Inr (match ! 1))"
    if "firstMatch bmcInfoManufacturerIDRegex (Split_nl (output r)) = Some match" for match
    using that by (simp add: GetBMCInfoManufacturerID_eq)
  have none': "GetBMCInfoManufacturerID r = Returned (Inl (ErrorfCmd e (output r)))"
    if "firstMatch bmcInfoManufacturerIDRegex (Split_nl (output r)) = None"
    using that assms by (simp add: GetBMCInfoManufacturerID_eq)
  show ?thesis
  proof (intro conjI impI)
    assume "\<exists>line \<in> set (Split_nl (output r)).
              FindStringSubmatch bmcInfoFirmwareRevisionRegex line \<noteq> None"
    then obtain match where
      "firstMatch bmcInfoFirmwareRevisionRegex (Split_nl (output r)) = Some match"
      using firstMatch_Some_iff by blast
    with some show "\<exists>match. firstMatch bmcInfoFirmwareRevisionRegex (Split_nl (output r)) = Some match \<and>
        GetBMCInfoFirmwareRevision r = Returned (Inr (match ! 1))"
      by blast
  next
    assume "\<forall>line \<in> set (Split_nl (output r)).
              FindStringSubmatch bmcInfoFirmwareRevisionRegex line = None"
    then have "firstMatch bmcInfoFirmwareRevisionRegex (Split_nl (output r)) = None"
      using firstMatch_Some_iff [of bmcInfoFirmwareRevisionRegex "Split_nl (output r)"]
      by (cases "firstMatch bmcInfoFirmwareRevisionRegex (Split_nl (output r))") auto
    with none show "GetBMCInfoFirmwareRevision r = Returned (Inl (ErrorfCmd e (output r)))" .
  next
    assume "\<exists>line \<in> set (Split_nl (output r)).
              FindStringSubmatch bmcInfoManufacturerIDRegex line \<noteq> None"
    then obtain match where
      "firstMatch bmcInfoManufacturerIDRegex (Split_nl (output r)) = Some match"
      using firstMatch_Some_iff by blast
    with some' show "\<exists>match. firstMatch bmcInfoManufacturerIDRegex (Split_nl (output r)) = Some match \<and>
        GetBMCInfoManufacturerID r = Returned (Inr (match ! 1))"
      by blast
  next
    assume "\<forall>line \<in> set (Split_nl (output r)).
              FindStringSubmatch bmcInfoManufacturerIDRegex line = None"
    then have "firstMatch bmcInfoManufacturerIDRegex (Split_nl (output r)) = None"
      using firstMatch_Some_iff [of bmcInfoManufacturerIDRegex "Split_nl (output r)"]
      by (cases "firstMatch bmcInfoManufacturerIDRegex (Split_nl (output r))") auto
    with none' show "GetBMCInfoManufacturerID r = Returned (Inl (ErrorfCmd e (output r)))" .
  qed
qed

text \<open>
  A command that fails after it has printed both fields, and one that fails with a
  time-out message only.
\<close>

theorem GetBMCInfo_recovery_witness:
  "GetBMCInfoFirmwareRevision \<lparr>output = bmcOutput, err = Some exitError\<rparr> =
     Returned (Inr ''1.23'') \<and>
   GetBMCInfoManufacturerID \<lparr>output = bmcOutput, err = Some exitError\<rparr> =
     Returned (Inr ''Dell Inc. (674)'') \<and>
   GetBMCInfoFirmwareRevision \<lparr>output = timeoutOutput, err = Some exitError\<rparr> =
     Returned (Inl (ErrorfCmd exitError timeoutOutput)) \<and>
   GetBMCInfoManufacturerID \<lparr>output = timeoutOutput, err = Some exitError\<rparr> =
     Returned (Inl (ErrorfCmd exitError timeoutOutput))"
proof -
  have m: "\<exists>line \<in> set (Split_nl bmcOutput).
             FindStringSubmatch bmcInfoFirmwareRevisionRegex line \<noteq> None"
    "\<exists>line \<in> set (Split_nl bmcOutput).
             FindStringSubmatch bmcInfoManufacturerIDRegex line \<noteq> None"
    using firstMatch_Some_iff [of bmcInfoFirmwareRevisionRegex "Split_nl bmcOutput"]
      firstMatch_Some_iff [of bmcInfoManufacturerIDRegex "Split_nl bmcOutput"]
    by (simp_all add: firstMatch_bmcOutput)
  have n: "\<forall>line \<in> set (Split_nl timeoutOutput).
             FindStringSubmatch bmcInfoFirmwareRevisionRegex line = None"
    "\<forall>line \<in> set (Split_nl timeoutOutput).
             FindStringSubmatch bmcInfoManufacturerIDRegex line = None"
    using firstMatch_Some_iff [of bmcInfoFirmwareRevisionRegex "Split_nl timeoutOutput"]
      firstMatch_Some_iff [of bmcInfoManufacturerIDRegex "Split_nl timeoutOutput"]
    by (simp_all add: firstMatch_timeoutOutput)
  from GetBMCInfo_recovery [of "\<lparr>output = bmcOutput, err = Some exitError\<rparr>" exitError]
    GetBMCInfo_recovery [of "\<lparr>output = timeoutOutput, err = Some exitError\<rparr>" exitError]
    m n
  show ?thesis by (simp add: firstMatch_bmcOutput)
qed

section \<open>The SDR cache\<close>

text \<open>The test of the source, said in the words of the specification.\<close>

lemma stale_predicate:
  "(Day nextTick - Day modTime > 0 \<or> Month nextTick \<noteq> Month modTime) \<longleftrightarrow>
   (Month modTime \<noteq> Month nextTick \<or> (Month modTime = Month nextTick \<and> Day modTime < Day nextTick))"
  by auto

text \<open>
  The loop calls the flush once for every name that \<open>flushes\<close> picks, in the order of
  the directory, and does nothing else.
\<close>

lemma flushLoop_trace:
  "flushLoop e nextTick host cfg dirFiles h =
     h @ map (\<lambda>name. flushInvocation cfg host) (filter (flushes e nextTick host) dirFiles)"
proof (induction dirFiles arbitrary: h)
  case Nil
  then show ?case by simp
next
  case (Cons name dirFiles)
  then show ?case
    by (auto simp: flushes_def Execute_def flushInvocation_def Let_def split: sum.splits)
qed

text \<open>
  C1. The claim is that a matching cache file whose modification date lies in a strictly
  earlier month than today triggers exactly one flush. The test of the source compares
  the day of the month and the month but not the year. A file of the host last modified
  on 20 May 2023 is in an earlier month than 10 May 2024, yet the months are equal and
  the day is not earlier: no flush is called.
\<close>

theorem flushSensorSDRCache_year_old_cache:
  "Contains ''sdr-cache-node01.host1'' ''host1'' \<and>
   Stat yearOldEnv (sdrCacheDirectoy @ ''sdr-cache-node01.host1'') =
     Inr \<lparr>Year = 2023, Month = 5, Day = 20, clock = 0\<rparr> \<and>
   Year (Now yearOldEnv) = 2024 \<and> Month (Now yearOldEnv) = 5 \<and> Day (Now yearOldEnv) = 10 \<and>
   flushSensorSDRCache yearOldEnv ''host1'' [] [] = (None, [])"
  by (simp add: flushSensorSDRCache_def yearOldEnv_def Date_def)

section \<open>The orchestrator\<close>

lemma upMetric_isUp: "isUp (markCollectorUp name up)"
  by (simp add: isUp_def markCollectorUp_def)

text \<open>
  The loop over well-behaved collectors: every collector is run, in order, and adds its
  own metrics followed by one up indicator with its name.
\<close>

lemma collectLoop_run:
  "\<forall>c \<in> set cs. wellBehaved c host \<Longrightarrow>
   \<exists>sent. collectLoop e cfg host cs ch h =
            (ch @ sent, h @ map (collectorInvocation e cfg host) cs, None) \<and>
          map labelValues (filter isUp sent) = map (\<lambda>c. [Name c]) cs"
proof (induction cs arbitrary: ch h)
  case Nil
  then show ?case by simp
next
  case (Cons c cs)
  let ?inv = "collectorInvocation e cfg host c"
  let ?r = "respond e h ?inv"
  from Cons.prems have wb: "sendsNoUp (Collect c ?r host)" and rest: "\<forall>c \<in> set cs. wellBehaved c host"
    by (simp_all add: wellBehaved_def)
  from wb obtain ms up er where res: "Collect c ?r host = Returned (ms, up, er)"
    and quiet: "filter isUp ms = []"
    by (cases "Collect c ?r host") (auto simp: sendsNoUp_def)
  from Cons.IH [OF rest, of "ch @ ms @ [markCollectorUp (Name c) up]" "h @ [?inv]"]
  obtain sent where
    run: "collectLoop e cfg host cs (ch @ ms @ [markCollectorUp (Name c) up]) (h @ [?inv]) =
            ((ch @ ms @ [markCollectorUp (Name c) up]) @ sent,
             (h @ [?inv]) @ map (collectorInvocation e cfg host) cs, None)"
    and names: "map labelValues (filter isUp sent) = map (\<lambda>c. [Name c]) cs"
    by blast
  have step: "collectLoop e cfg host (c # cs) ch h =
      collectLoop e cfg host cs (ch @ ms @ [markCollectorUp (Name c) up]) (h @ [?inv])"
    using res by (simp add: Execute_def collectorInvocation_def Let_def)
  have "collectLoop e cfg host (c # cs) ch h =
      (ch @ (ms @ markCollectorUp (Name c) up # sent),
       h @ map (collectorInvocation e cfg host) (c # cs), None)"
    unfolding step run by simp
  moreover have "map labelValues (filter isUp (ms @ markCollectorUp (Name c) up # sent)) =
      map (\<lambda>c. [Name c]) (c # cs)"
    using quiet names by (simp add: upMetric_isUp) (simp add: markCollectorUp_def)
  ultimately show ?case by blast
qed

text \<open>The chassis collector returns on every result and sends no up indicator.\<close>

lemma ChassisCollector_wellBehaved: "wellBehaved ChassisCollector host"
  by (auto simp: wellBehaved_def sendsNoUp_def ChassisCollector_def GetChassisPowerState_def
      getValue_labelled [OF labelled_Chassis] andThen_def isUp_def chassisPowerStateDesc_def
      upDesc_def split: option.splits)

lemma ChassisCollector_fields:
  "Name ChassisCollector = ''chassis''" "Cmd ChassisCollector = ''ipmi-chassis''"
  "Args ChassisCollector = [''--get-chassis-status'']"
  by (simp_all add: ChassisCollector_def)

lemma ChassisCollector_command_failed:
  "Collect ChassisCollector \<lparr>output = out, err = Some er\<rparr> host =
     Returned ([], 0, Some (ErrorfCmd er out))"
  by (simp add: ChassisCollector_def GetChassisPowerState_def andThen_def)

lemma firstMatch_powerOnOutput:
  "firstMatch ipmiChassisPowerRegex (Split_nl powerOnOutput) = Some [powerOnOutput, ''on'']"
  by (simp add: powerOnOutput_def ipmiChassisPowerRegex_def regexp_defs char_defs)

lemma ChassisCollector_power_on:
  "Collect ChassisCollector \<lparr>output = powerOnOutput, err = None\<rparr> host =
     Returned ([\<lparr>desc = chassisPowerStateDesc, val = Finite 1, labelValues = []\<rparr>], 1, None)"
  by (simp add: ChassisCollector_def GetChassisPowerState_def
      getValue_labelled [OF labelled_Chassis] firstMatch_powerOnOutput valueGroup_regexes
      andThen_def)

lemma failFirstEnv_fields:
  "respond failFirstEnv [] call = \<lparr>output = timeoutOutput, err = Some exitError\<rparr>"
  "respond failFirstEnv (i # h) call = \<lparr>output = powerOnOutput, err = None\<rparr>"
  "collectorInvocation failFirstEnv [] ''host1'' ChassisCollector = chassisInvocation"
  "flushSensorSDRCache failFirstEnv host cfg h =
     (Some (Errorf ''open /root/.freeipmi/sdr-cache/: no such file or directory''), h)"
  "elapsed failFirstEnv = Finite 1"
  by (simp_all add: failFirstEnv_def collectorInvocation_def chassisInvocation_def
      ChassisCollector_fields flushSensorSDRCache_def)

lemma collectLoop_step:
  "Collect c (respond e h (collectorInvocation e cfg host c)) host = Returned (ms, up, er) \<Longrightarrow>
   collectLoop e cfg host (c # cs) ch h =
     collectLoop e cfg host cs (ch @ ms @ [markCollectorUp (Name c) up])
       (h @ [collectorInvocation e cfg host c])"
  by (simp add: Execute_def collectorInvocation_def Let_def)

text \<open>
  Two chassis collectors, the first of whose commands fails: its indicator is 0, and the
  second collector still runs, sends the power state and its indicator 1.
\<close>

lemma twoChassis_run:
  "metaCollector_Collect failFirstEnv twoChassis ''host1'' [] [] =
     ([markCollectorUp ''chassis'' 0,
       \<lparr>desc = chassisPowerStateDesc, val = Finite 1, labelValues = []\<rparr>,
       markCollectorUp ''chassis'' 1,
       \<lparr>desc = durationDesc, val = Finite 1, labelValues = []\<rparr>],
      [chassisInvocation, chassisInvocation], None)"
proof -
  have c1: "Collect ChassisCollector
      (respond failFirstEnv [] (collectorInvocation failFirstEnv [] ''host1'' ChassisCollector))
      ''host1'' = Returned ([], 0, Some (ErrorfCmd exitError timeoutOutput))"
    by (simp only: failFirstEnv_fields ChassisCollector_command_failed)
  have c2: "Collect ChassisCollector
      (respond failFirstEnv [chassisInvocation]
         (collectorInvocation failFirstEnv [] ''host1'' ChassisCollector))
      ''host1'' =
        Returned ([\<lparr>desc = chassisPowerStateDesc, val = Finite 1, labelValues = []\<rparr>], 1, None)"
    by (simp only: failFirstEnv_fields ChassisCollector_power_on)
  have "collectLoop failFirstEnv [] ''host1'' [ChassisCollector, ChassisCollector] [] [] =
      collectLoop failFirstEnv [] ''host1'' [ChassisCollector] [markCollectorUp ''chassis'' 0]
        [chassisInvocation]"
    by (simp only: collectLoop_step [OF c1] failFirstEnv_fields ChassisCollector_fields append_Nil)
  also have "\<dots> = collectLoop failFirstEnv [] ''host1'' []
        [markCollectorUp ''chassis'' 0,
         \<lparr>desc = chassisPowerStateDesc, val = Finite 1, labelValues = []\<rparr>,
         markCollectorUp ''chassis'' 1]
        [chassisInvocation, chassisInvocation]"
    by (simp only: collectLoop_step [OF c2] failFirstEnv_fields ChassisCollector_fields
        append_Nil append_Cons)
  finally have run: "collectLoop failFirstEnv [] ''host1'' [ChassisCollector, ChassisCollector] [] [] =
      ([markCollectorUp ''chassis'' 0,
        \<lparr>desc = chassisPowerStateDesc, val = Finite 1, labelValues = []\<rparr>,
        markCollectorUp ''chassis'' 1],
       [chassisInvocation, chassisInvocation], None)"
    by (simp only: collectLoop.simps(1))
  have cf: "GetCollectors twoChassis = [ChassisCollector, ChassisCollector]"
    "GetFreeipmiConfig twoChassis = []"
    by (simp_all add: twoChassis_def)
  show ?thesis
    unfolding metaCollector_Collect_def Let_def cf failFirstEnv_fields snd_conv fst_conv run
    by (simp only: append_Cons append_Nil)
qed

text \<open>
  What holds of the orchestrator. For every list of enabled collectors that return from
  \<open>Collect\<close> and send no up indicator of their own, one scrape runs the command of every
  collector, in configuration order, after the calls of the cache flush, and sends
  exactly one up indicator per collector, labelled with the name of the collector, in
  the same order (\<open>collectLoop_step\<close> gives its value: the up that \<open>Collect\<close>
  returned). Nothing is asked of what a collector returns: one that reports failure is
  followed by the others all the same.
\<close>

lemma metaCollector_Collect_returning_collectors:
  assumes "\<forall>c \<in> set (GetCollectors cf). wellBehaved c host"
  shows "\<exists>sent. metaCollector_Collect e cf host ch h =
           (ch @ sent,
            snd (flushSensorSDRCache e host (GetFreeipmiConfig cf) h) @
              map (collectorInvocation e (GetFreeipmiConfig cf) host) (GetCollectors cf),
            None) \<and>
         map labelValues (filter isUp sent) = map (\<lambda>c. [Name c]) (GetCollectors cf)"
proof -
  let ?h1 = "snd (flushSensorSDRCache e host (GetFreeipmiConfig cf) h)"
  from collectLoop_run [OF assms, of e "GetFreeipmiConfig cf" ch ?h1]
  obtain sent where
    run: "collectLoop e (GetFreeipmiConfig cf) host (GetCollectors cf) ch ?h1 =
            (ch @ sent, ?h1 @ map (collectorInvocation e (GetFreeipmiConfig cf) host) (GetCollectors cf),
             None)"
    and names: "map labelValues (filter isUp sent) = map (\<lambda>c. [Name c]) (GetCollectors cf)"
    by blast
  let ?d = "\<lparr>desc = durationDesc, val = elapsed e, labelValues = []\<rparr>"
  have "metaCollector_Collect e cf host ch h =
          (ch @ (sent @ [?d]),
           ?h1 @ map (collectorInvocation e (GetFreeipmiConfig cf) host) (GetCollectors cf), None)"
    by (simp add: metaCollector_Collect_def run Let_def)
  moreover have "map labelValues (filter isUp (sent @ [?d])) = map (\<lambda>c. [Name c]) (GetCollectors cf)"
    using names by (simp add: isUp_def durationDesc_def upDesc_def)
  ultimately show ?thesis by blast
qed

subsection \<open>A collector that panics\<close>

lemma collectLoop_panic:
  "Collect c (respond e h (collectorInvocation e cfg host c)) host = Panic p \<Longrightarrow>
   collectLoop e cfg host (c # cs) ch h = (ch, h @ [collectorInvocation e cfg host c], Some p)"
  by (simp add: Execute_def collectorInvocation_def Let_def)

lemma GetSensorData_shortRowOutput:
  "GetSensorData \<lparr>output = shortRowOutput, err = None\<rparr> [] = Panic (IndexOutOfRange 2 2)"
  by (simp add: GetSensorData_def shortRowOutput_def csv_defs char_defs row_defs strconv_defs)

lemma exampleSensorCollector_fields:
  "Name exampleSensorCollector = ''ipmi''" "Cmd exampleSensorCollector = ''ipmi-sensors''"
  "Args exampleSensorCollector =
     [''--comma-separated-output'', ''--no-header-output'', ''--output-sensor-state'']"
  by (simp_all add: exampleSensorCollector_def SensorCollector_def)

lemma exampleSensorCollector_short_row:
  "Collect exampleSensorCollector \<lparr>output = shortRowOutput, err = None\<rparr> host =
     Panic (IndexOutOfRange 2 2)"
  by (simp add: exampleSensorCollector_def SensorCollector_def GetSensorData_shortRowOutput
      andThen_def)

lemma shortRowEnv_fields:
  "collectorInvocation shortRowEnv [] ''host1'' ChassisCollector = chassisInvocation"
  "collectorInvocation shortRowEnv [] ''host1'' exampleSensorCollector = sensorInvocation"
  "respond shortRowEnv h chassisInvocation = \<lparr>output = powerOnOutput, err = None\<rparr>"
  "respond shortRowEnv h sensorInvocation = \<lparr>output = shortRowOutput, err = None\<rparr>"
  "flushSensorSDRCache shortRowEnv host cfg h =
     (Some (Errorf ''open /root/.freeipmi/sdr-cache/: no such file or directory''), h)"
  "elapsed shortRowEnv = Finite 1"
  by (simp_all add: shortRowEnv_def collectorInvocation_def chassisInvocation_def
      sensorInvocation_def ChassisCollector_fields exampleSensorCollector_fields
      flushSensorSDRCache_def)

text \<open>
  C3. The claim is that every enabled collector is run, in configuration order, and
  gets exactly one up indicator with its name, and that a failure of a collector, a
  parse failure included, does not keep the later collectors from running and
  reporting. The loop has no \<open>recover\<close>, and the parse of the sensor collector panics
  on a row with fewer than seven fields (the defect of C4). In the scrape of the
  chassis, the sensor and again the chassis collector, with the sensor command printing
  \<open>12,Fan1\<close>, the first collector sends its power state and its indicator 1; the sensor
  collector panics and gets no indicator; the third collector is never run, so no third
  command is called and no indicator is sent for it; the deferred function sends the
  duration, and the panic leaves the scrape.
\<close>

theorem metaCollector_Collect_panic_stops_scrape:
  "metaCollector_Collect shortRowEnv threeCollectors ''host1'' [] [] =
     ([\<lparr>desc = ''ipmi_chassis_power_state'', val = Finite 1, labelValues = []\<rparr>,
       \<lparr>desc = ''ipmi_up'', val = Finite 1, labelValues = [''chassis'']\<rparr>,
       \<lparr>desc = ''ipmi_scrape_duration_seconds'', val = Finite 1, labelValues = []\<rparr>],
      [\<lparr>cmd = ''/usr/sbin/ipmi-chassis'', args = [''--get-chassis-status''], config = [],
         target = ''host1''\<rparr>,
       \<lparr>cmd = ''/usr/sbin/ipmi-sensors'',
         args = [''--comma-separated-output'', ''--no-header-output'', ''--output-sensor-state''],
         config = [], target = ''host1''\<rparr>],
      Some (IndexOutOfRange 2 2))"
proof -
  have c1: "Collect ChassisCollector
      (respond shortRowEnv [] (collectorInvocation shortRowEnv [] ''host1'' ChassisCollector))
      ''host1'' =
        Returned ([\<lparr>desc = chassisPowerStateDesc, val = Finite 1, labelValues = []\<rparr>], 1, None)"
    by (simp only: shortRowEnv_fields ChassisCollector_power_on)
  have c2: "Collect exampleSensorCollector
      (respond shortRowEnv [chassisInvocation]
         (collectorInvocation shortRowEnv [] ''host1'' exampleSensorCollector))
      ''host1'' = Panic (IndexOutOfRange 2 2)"
    by (simp only: shortRowEnv_fields exampleSensorCollector_short_row)
  have "collectLoop shortRowEnv [] ''host1''
          [ChassisCollector, exampleSensorCollector, ChassisCollector] [] [] =
        collectLoop shortRowEnv [] ''host1'' [exampleSensorCollector, ChassisCollector]
          [\<lparr>desc = chassisPowerStateDesc, val = Finite 1, labelValues = []\<rparr>,
           markCollectorUp ''chassis'' 1]
          [chassisInvocation]"
    by (simp only: collectLoop_step [OF c1] shortRowEnv_fields ChassisCollector_fields
        append_Nil append_Cons)
  also have "\<dots> =
        ([\<lparr>desc = chassisPowerStateDesc, val = Finite 1, labelValues = []\<rparr>,
          markCollectorUp ''chassis'' 1],
         [chassisInvocation, sensorInvocation], Some (IndexOutOfRange 2 2))"
    by (simp only: collectLoop_panic [OF c2] shortRowEnv_fields append_Nil append_Cons)
  finally have run: "collectLoop shortRowEnv [] ''host1''
          [ChassisCollector, exampleSensorCollector, ChassisCollector] [] [] =
        ([\<lparr>desc = chassisPowerStateDesc, val = Finite 1, labelValues = []\<rparr>,
          markCollectorUp ''chassis'' 1],
         [chassisInvocation, sensorInvocation], Some (IndexOutOfRange 2 2))" .
  have cf: "GetCollectors threeCollectors =
        [ChassisCollector, exampleSensorCollector, ChassisCollector]"
    "GetFreeipmiConfig threeCollectors = []"
    by (simp_all add: threeCollectors_def)
  have "metaCollector_Collect shortRowEnv threeCollectors ''host1'' [] [] =
      ([\<lparr>desc = chassisPowerStateDesc, val = Finite 1, labelValues = []\<rparr>,
        markCollectorUp ''chassis'' 1,
        \<lparr>desc = durationDesc, val = Finite 1, labelValues = []\<rparr>],
       [chassisInvocation, sensorInvocation], Some (IndexOutOfRange 2 2))"
    unfolding metaCollector_Collect_def Let_def cf shortRowEnv_fields snd_conv fst_conv run
    by (simp only: append_Cons append_Nil)
  then show ?thesis
    by (simp add: chassisPowerStateDesc_def markCollectorUp_def upDesc_def durationDesc_def
        chassisInvocation_def sensorInvocation_def)
qed

end
